theory Spec2Isabelle
  imports Main
begin

section \<open>Values shared by the packages\<close>

text \<open>
  The value types of the Terraform plugin framework: a string or a boolean of a
  configuration or a plan is null, unknown or known. \<open>ValueString\<close> and
  \<open>ValueBool\<close> return the zero value for null and unknown.
\<close>

datatype tf_string = StringNull | StringUnknown | StringValue string

datatype tf_bool = BoolNull | BoolUnknown | BoolValue bool

fun ValueString :: "tf_string \<Rightarrow> string" where
  "ValueString (StringValue s) = s"
| "ValueString _ = []"

fun ValueBool :: "tf_bool \<Rightarrow> bool" where
  "ValueBool (BoolValue b) = b"
| "ValueBool _ = False"

fun ValueStringPointer :: "tf_string \<Rightarrow> string option" where
  "ValueStringPointer StringNull = None"
| "ValueStringPointer StringUnknown = Some []"
| "ValueStringPointer (StringValue s) = Some s"

fun StringPointerValue :: "string option \<Rightarrow> tf_string" where
  "StringPointerValue None = StringNull"
| "StringPointerValue (Some s) = StringValue s"

text \<open>
  Go errors. \<open>Err m\<close> is an error with message \<open>m\<close> (\<open>fmt.Errorf\<close> without
  arguments, or an error of a library); \<open>Wrapf f e\<close> is \<open>fmt.Errorf(f, e)\<close>
  with the error \<open>e\<close> as its argument; \<open>ErrTf f s\<close> is \<open>fmt.Errorf(f, s.String())\<close>
  for a framework string \<open>s\<close>. The format strings are kept unrendered.
\<close>

datatype err = Err string | Wrapf string err | ErrTf string tf_string

datatype log_level = Info | Warn

text \<open>
  A diagnostic of the framework: severity, summary, the format of the detail and the
  error rendered into it. \<open>HasError\<close> holds when one has severity error.
\<close>

datatype severity = SeverityError | SeverityWarning

datatype diagnostic = Diag severity string string "err option"

fun is_error :: "diagnostic \<Rightarrow> bool" where
  "is_error (Diag SeverityError _ _ _) = True"
| "is_error (Diag SeverityWarning _ _ _) = False"

definition HasError :: "diagnostic list \<Rightarrow> bool" where
  "HasError ds = list_ex is_error ds"

definition AddError :: "string \<Rightarrow> string \<Rightarrow> err option \<Rightarrow> diagnostic list \<Rightarrow> diagnostic list" where
  "AddError summary detail e ds = ds @ [Diag SeverityError summary detail e]"

text \<open>
  What a run does to the outside, in order: log lines, the discovery probe, the
  construction of an authenticator, a tick received from the ticker, a line printed,
  a pairing request, and an attempt to write the cache file with its outcome.
\<close>

datatype io_event =
    TfLog log_level string "err option"
  | TfLogTf log_level string tf_string
  | Discover
  | NewAuthenticator string
  | TickerTick
  | Println string
  | Authenticate
  | SafeWriteConfigAs string "err option"

section \<open>The configuration library\<close>

text \<open>
  \<open>GetAuthConfig\<close> keeps its settings in an instance of the viper library, which is
  not part of the repository. The record below holds the layers of one instance that
  the calls of \<open>GetAuthConfig\<close> touch. The library documents the order in which
  \<open>Get\<close> consults them: a value given to \<open>Set\<close>, then (with \<open>AutomaticEnv\<close>)
  the environment variable named by the upper-cased key, then the configuration file,
  then a value given to \<open>SetDefault\<close>. An environment variable set to the empty
  string counts as unset. The package-level functions (\<open>viper.SetDefault\<close>) work on
  one global instance of the package; \<open>viper.New()\<close> returns a fresh, separate one.
\<close>

record viper =
  override :: "string \<rightharpoonup> string"
  config :: "string \<rightharpoonup> string"
  defaults :: "string \<rightharpoonup> string"
  configName :: string
  configType :: string
  configFile :: string
  automaticEnvApplied :: bool

definition viper_New :: viper where
  "viper_New = \<lparr>override = Map.empty, config = Map.empty, defaults = Map.empty,
     configName = ''config'', configType = [], configFile = [],
     automaticEnvApplied = False\<rparr>"

definition SetConfigName :: "string \<Rightarrow> viper \<Rightarrow> viper" where
  "SetConfigName n v = (if n \<noteq> [] then v\<lparr>configName := n, configFile := []\<rparr> else v)"

definition SetConfigType :: "string \<Rightarrow> viper \<Rightarrow> viper" where
  "SetConfigType t v = v\<lparr>configType := t\<rparr>"

definition SetConfigFile :: "string \<Rightarrow> viper \<Rightarrow> viper" where
  "SetConfigFile f v = v\<lparr>configFile := f\<rparr>"

definition SetDefault :: "string \<Rightarrow> string \<Rightarrow> viper \<Rightarrow> viper" where
  "SetDefault k x v = v\<lparr>defaults := (defaults v)(k \<mapsto> x)\<rparr>"

definition Set_override :: "string \<Rightarrow> string \<Rightarrow> viper \<Rightarrow> viper" where
  "Set_override k x v = v\<lparr>override := (override v)(k \<mapsto> x)\<rparr>"

definition AutomaticEnv :: "viper \<Rightarrow> viper" where
  "AutomaticEnv v = v\<lparr>automaticEnvApplied := True\<rparr>"

text \<open>
  A file of the file system: absent, present but not readable as JSON settings, or
  holding settings (keys in lower case, as the library reads them).
\<close>

datatype fs_entry = Absent | Unreadable | Settings "string \<rightharpoonup> string"

text \<open>
  \<open>ReadInConfig\<close>: with no file named and no search path added, no file is found;
  otherwise the named file is read. The settings of the instance change only when
  the read succeeds. \<open>GetAuthConfig\<close> drops the error.
\<close>

definition ReadInConfig :: "(string \<Rightarrow> fs_entry) \<Rightarrow> viper \<Rightarrow> viper \<times> err option" where
  "ReadInConfig fs v =
     (if configFile v = [] then (v, Some (Err ''Config File Not Found''))
      else case fs (configFile v) of
             Settings m \<Rightarrow> (v\<lparr>config := m\<rparr>, None)
           | Absent \<Rightarrow> (v, Some (Err ''no such file or directory''))
           | Unreadable \<Rightarrow> (v, Some (Err ''While parsing config'')))"

definition to_upper :: "char \<Rightarrow> char" where
  "to_upper c =
     (let n = (of_char c :: nat)
      in if 97 \<le> n \<and> n \<le> 122 then char_of (n - 32) else c)"

definition ToUpper :: "string \<Rightarrow> string" where
  "ToUpper s = map to_upper s"

definition getEnv :: "(string \<rightharpoonup> string) \<Rightarrow> string \<Rightarrow> string option" where
  "getEnv env k =
     (case env k of None \<Rightarrow> None | Some x \<Rightarrow> if x = [] then None else Some x)"

definition GetString :: "(string \<rightharpoonup> string) \<Rightarrow> viper \<Rightarrow> string \<Rightarrow> string" where
  "GetString env v k =
     (case override v k of
        Some x \<Rightarrow> x
      | None \<Rightarrow>
          (case (if automaticEnvApplied v then getEnv env (ToUpper k) else None) of
             Some x \<Rightarrow> x
           | None \<Rightarrow>
               (case config v k of
                  Some x \<Rightarrow> x
                | None \<Rightarrow> (case defaults v k of Some x \<Rightarrow> x | None \<Rightarrow> []))))"

text \<open>
  \<open>SafeWriteConfigAs\<close> refuses to overwrite: it fails when the file exists, and
  otherwise with whatever error the write itself meets.
\<close>

definition SafeWriteConfigAs_result :: "(string \<Rightarrow> fs_entry) \<Rightarrow> err option \<Rightarrow> string \<Rightarrow> err option" where
  "SafeWriteConfigAs_result fs werr p =
     (case fs p of Absent \<Rightarrow> werr | _ \<Rightarrow> Some (Err ''Config File Already Exists''))"

section \<open>Package config: the pairing waiter\<close>

text \<open>
  One answer of \<open>authenticator.Authenticate()\<close>: the API key, the retry flag and the
  error. The bridge is a script: the list of its answers to the successive pairing
  requests, each with the time in milliseconds the request takes.
\<close>

type_synonym auth_reply = "string \<times> bool \<times> err option"

type_synonym authenticator = "(nat \<times> auth_reply) list"

definition authenticateWithBridgeIpOnce :: "auth_reply \<Rightarrow> string \<times> err option" where
  "authenticateWithBridgeIpOnce r =
     (case r of (apiKey, retry, e) \<Rightarrow>
        if e \<noteq> None \<and> retry then ([], None)
        else if e \<noteq> None \<and> \<not> retry then ([], e)
        else (apiKey, None))"

text \<open>
  Time is counted in milliseconds from the entry to \<open>authenticateWithBridgeIp\<close>.
  \<open>time.Minute\<close> and \<open>500 * time.Millisecond\<close> are the two constants of the source.
\<close>

definition time_Minute :: nat where
  "time_Minute = 60000"

definition tick_interval :: nat where
  "tick_interval = 500"

text \<open>
  The caller's context is done at some time, or never. \<open>context.WithTimeout\<close>
  gives the context that is done at the earlier of the caller's time and the timeout.
\<close>

type_synonym ctx = "nat option"

definition WithTimeout :: "ctx \<Rightarrow> nat \<Rightarrow> nat" where
  "WithTimeout c d = (case c of None \<Rightarrow> d | Some t \<Rightarrow> min t d)"

text \<open>
  The \<open>select\<close> of the loop, entered at time \<open>now\<close>, with the context done at
  \<open>dl\<close> and the next tick of the ticker due at \<open>nt\<close> (a tick that fell due while
  the loop was busy is kept in the channel, later ones are dropped). The case that is
  ready first is taken; when both are ready at the same moment the Go runtime picks
  one at random, which \<open>pick\<close> decides here.
\<close>

definition select_done :: "bool \<Rightarrow> nat \<Rightarrow> nat \<Rightarrow> nat \<Rightarrow> bool" where
  "select_done pick dl now nt =
     (max now dl < max now nt \<or> (max now dl = max now nt \<and> pick))"

definition timeout_err :: err where
  "timeout_err = Err ''timed out waiting for Hue Bridge to be authenticated''"

text \<open>
  The loop \<open>for apiKey == ""\<close>. \<open>n\<close> counts the ticks received so far and indexes
  the picks of the runtime. The result is \<open>None\<close> when the script of the bridge ends
  while the loop is still polling.
\<close>

definition tick_events :: "io_event list" where
  "tick_events =
     [TickerTick, Println ''Waiting for hue bridge button to be pressed'', Authenticate]"

fun pollLoop ::
  "(nat \<Rightarrow> bool) \<Rightarrow> nat \<Rightarrow> nat \<Rightarrow> nat \<Rightarrow> nat \<Rightarrow> authenticator
     \<Rightarrow> ((err + string) \<times> io_event list) option" where
  "pollLoop pick dl n now nt script =
     (if select_done (pick n) dl now nt then Some (Inl timeout_err, [])
      else case script of
             [] \<Rightarrow> None
           | (lat, r) # rest \<Rightarrow>
               (let t = max now nt; evs = tick_events
                in case authenticateWithBridgeIpOnce r of
                     (apiKey, Some e) \<Rightarrow> Some (Inl e, evs)
                   | (apiKey, None) \<Rightarrow>
                       if apiKey = []
                       then map_option (\<lambda>(res, tr). (res, evs @ tr))
                              (pollLoop pick dl (Suc n) (t + lat)
                                 (tick_interval * (t div tick_interval + 1)) rest)
                       else Some (Inr apiKey, evs)))"

declare pollLoop.simps [simp del]

text \<open>
  The collaborators of the package: the home directory of the user, the environment,
  the file system, the outcome of a write to the cache file, the outcome of the
  discovery probe (address and instance of the bridge), the authenticator made for an
  address, and the picks of the runtime.
\<close>

record world =
  UserHomeDir :: "err + string"
  environ :: "string \<rightharpoonup> string"
  files :: "string \<Rightarrow> fs_entry"
  write_error :: "err option"
  discovery :: "err + string \<times> string"
  newAuthenticator :: "string \<Rightarrow> err + authenticator"
  select_pick :: "nat \<Rightarrow> bool"

definition authenticateWithBridgeIp ::
  "world \<Rightarrow> ctx \<Rightarrow> string \<Rightarrow> ((err + string) \<times> io_event list) option" where
  "authenticateWithBridgeIp w c bridgeIpAddress =
     (let dl = WithTimeout c time_Minute
      in case newAuthenticator w bridgeIpAddress of
           Inl e \<Rightarrow>
             Some (Inl (Wrapf ''failed to create authenticator: %w'' e),
                   [NewAuthenticator bridgeIpAddress])
         | Inr script \<Rightarrow>
             map_option (\<lambda>(res, tr). (res, NewAuthenticator bridgeIpAddress # tr))
               (pollLoop (select_pick w) dl 0 0 tick_interval script))"


section \<open>Package config: GetAuthConfig\<close>

record AuthConfig =
  BridgeIp :: string
  BridgeApiKey :: string

definition cachePath :: string where
  "cachePath = ''.openhue-credentials.json''"

definition filepath_Join :: "string \<Rightarrow> string \<Rightarrow> string" where
  "filepath_Join d f = d @ ''/'' @ f"

definition discover_note :: io_event where
  "discover_note = TfLog Info ''No Hue bridge ip provided ot set to always discover, attempting to discover one on the local network'' None"

definition pairing_note :: io_event where
  "pairing_note = TfLog Warn ''No Hue bridge api key provided, attempting to create one. You will need to press the link button on the Hue Bridge to authenticate!'' None"

text \<open>
  \<open>GetAuthConfig\<close>, statement by statement. \<open>cfg\<close> is the fresh instance made
  by \<open>viper.New()\<close>; \<open>gv\<close> is the global instance of the library, on which the
  two calls \<open>viper.SetDefault\<close> of the source work. The result carries the value
  returned, the global instance as the call leaves it, and the events of the run.
\<close>

definition GetAuthConfig ::
  "world \<Rightarrow> viper \<Rightarrow> ctx \<Rightarrow> string \<Rightarrow> string \<Rightarrow> bool
     \<Rightarrow> ((err + AuthConfig) \<times> viper \<times> io_event list) option" where
  "GetAuthConfig w gv0 c tfBridgeIp tfBridgeApiKey useCache =
     (let cfg = viper_New
      in case UserHomeDir w of
           Inl e \<Rightarrow> Some (Inl (Wrapf ''failed to get user home directory: %w'' e), gv0, [])
         | Inr homeDir \<Rightarrow>
             (let cfg = SetConfigType ''json'' (SetConfigName ''credentials'' cfg);
                  gv = SetDefault ''hue_bridge_api_key'' tfBridgeApiKey
                         (SetDefault ''hue_bridge_ip'' tfBridgeIp gv0);
                  cfg = (if useCache then SetConfigFile (filepath_Join homeDir cachePath) cfg
                         else cfg);
                  tr1 = (if useCache
                         then [TfLog Info ''Using cache for Hue bridge credentials'' None]
                         else []);
                  cfg = fst (ReadInConfig (files w) (AutomaticEnv cfg));
                  hueBridgeIp = GetString (environ w) cfg ''hue_bridge_ip''
              in case (if hueBridgeIp = [] \<or> tfBridgeIp = ''discover''
                       then (case discovery w of
                               Inl e \<Rightarrow> Inl e
                             | Inr (ipAddress, instance) \<Rightarrow>
                                 Inr (Set_override ''hue_bridge_ip'' ipAddress cfg,
                                      [discover_note,
                                       Discover,
                                       TfLog Info ''Successfully discovered Hue Bridge'' None]))
                       else Inr (cfg, [])) of
                   Inl e \<Rightarrow>
                     Some (Inl (Wrapf ''failed to discover Hue Bridge: %w'' e), gv,
                           tr1 @ [discover_note,
                                  Discover])
                 | Inr (cfg, tr2) \<Rightarrow>
                     (let hueBridgeApiKey = GetString (environ w) cfg ''hue_bridge_api_key''
                      in case (if hueBridgeApiKey = []
                               then (case authenticateWithBridgeIp w c
                                            (GetString (environ w) cfg ''hue_bridge_ip'') of
                                       None \<Rightarrow> None
                                     | Some (Inl e, tr) \<Rightarrow> Some (Inl e, tr)
                                     | Some (Inr k, tr) \<Rightarrow>
                                         Some (Inr (Set_override ''hue_bridge_api_key'' k cfg), tr))
                               else Some (Inr cfg, [])) of
                           None \<Rightarrow> None
                         | Some (Inl e, tr3) \<Rightarrow>
                             Some (Inl (Wrapf ''failed to authenticate with Hue Bridge: %w'' e), gv,
                                   tr1 @ tr2 @
                                   [pairing_note]
                                   @ tr3)
                         | Some (Inr cfg, tr3) \<Rightarrow>
                             (let tr3 = (if hueBridgeApiKey = []
                                         then pairing_note # tr3
                                         else tr3);
                                  p = filepath_Join homeDir cachePath;
                                  werr = SafeWriteConfigAs_result (files w) (write_error w) p;
                                  tr4 = (if useCache
                                         then SafeWriteConfigAs p werr #
                                              (case werr of
                                                 None \<Rightarrow> []
                                               | Some e \<Rightarrow> [TfLog Warn ''Failed to write cache file: %s'' (Some e)])
                                         else [])
                              in Some (Inr \<lparr>BridgeIp = GetString (environ w) cfg ''hue_bridge_ip'',
                                             BridgeApiKey = GetString (environ w) cfg ''hue_bridge_api_key''\<rparr>,
                                       gv, tr1 @ tr2 @ tr3 @ tr4)))))"


section \<open>Package provider: Configure\<close>

record OpenhueProviderModel =
  model_BridgeIp :: tf_string
  model_BridgeApiKey :: tf_string
  model_Cache :: tf_bool

text \<open>
  The REST client of the openhue library, as \<open>Configure\<close> constructs it: the server
  URL given to the constructor and the header that the request editor sets on every
  request. The constructor belongs to the library; its error, if any, is a parameter.
\<close>

record Client =
  Server :: string
  RequestHeader :: "string \<times> string"

definition NewClientWithResponses :: "err option \<Rightarrow> string \<Rightarrow> string \<times> string \<Rightarrow> err + Client" where
  "NewClientWithResponses cerr server hdr =
     (case cerr of
        Some e \<Rightarrow> Inl e
      | None \<Rightarrow> Inr \<lparr>Server = server, RequestHeader = hdr\<rparr>)"

text \<open>
  The state of the process that outlives one call: the global instance of the
  configuration library and the TLS configuration of \<open>http.DefaultTransport\<close>,
  which every HTTP client of the process without a transport of its own uses.
\<close>

record tls_Config =
  InsecureSkipVerify :: bool

record process =
  viper_global :: viper
  DefaultTransport_TLSClientConfig :: "tls_Config option"

text \<open>
  The request carries what \<open>req.Config.Get\<close> decodes: the model and the diagnostics
  of the decoding.
\<close>

record ConfigureRequest =
  Config_model :: OpenhueProviderModel
  Config_diags :: "diagnostic list"

record ConfigureResponse =
  Diagnostics :: "diagnostic list"
  DataSourceData :: "Client option"
  ResourceData :: "Client option"
  EphemeralResourceData :: "Client option"

definition Configure ::
  "world \<Rightarrow> err option \<Rightarrow> process \<Rightarrow> ctx \<Rightarrow> ConfigureRequest \<Rightarrow> ConfigureResponse
     \<Rightarrow> (ConfigureResponse \<times> process \<times> io_event list) option" where
  "Configure w cerr pr c req resp0 =
     (let model = Config_model req;
          resp = resp0\<lparr>Diagnostics := Diagnostics resp0 @ Config_diags req\<rparr>
      in case GetAuthConfig w (viper_global pr) c (ValueString (model_BridgeIp model))
                (ValueString (model_BridgeApiKey model)) (ValueBool (model_Cache model)) of
           None \<Rightarrow> None
         | Some (r, gv, tr0) \<Rightarrow>
             (let pr = pr\<lparr>viper_global := gv\<rparr>;
                  tr = tr0 @ [TfLogTf Info ''Configuring provider with bridge_ip: %s''
                                (model_BridgeIp model)]
              in case r of
                   Inl e \<Rightarrow>
                     Some (resp\<lparr>Diagnostics :=
                                  AddError ''failed to get auth config''
                                    ''failed to get auth config: %s'' (Some e)
                                    (Diagnostics resp)\<rparr>,
                           pr, tr)
                 | Inr authConfig \<Rightarrow>
                     (case NewClientWithResponses cerr (''https://'' @ BridgeIp authConfig)
                             (''hue-application-key'', BridgeApiKey authConfig) of
                        Inl e \<Rightarrow>
                          Some (resp\<lparr>Diagnostics :=
                                       AddError ''failed to create home''
                                         ''failed to create home: %s'' (Some e)
                                         (Diagnostics resp)\<rparr>,
                                pr, tr)
                      | Inr client \<Rightarrow>
                          Some (resp\<lparr>DataSourceData := Some client,
                                      ResourceData := Some client,
                                      EphemeralResourceData := Some client\<rparr>,
                                pr\<lparr>DefaultTransport_TLSClientConfig :=
                                      Some \<lparr>InsecureSkipVerify = True\<rparr>\<rparr>,
                                tr))))"

section \<open>Package resources: the room resource\<close>

text \<open>
  The archetype constants of the openhue library that the table of the source names;
  \<open>RoomArchetypeZero\<close> stands for the zero value that a failed map lookup yields.
\<close>

datatype RoomArchetype =
    RoomArchetypeZero
  | RoomArchetypeBedroom
  | RoomArchetypeBathroom
  | RoomArchetypeKitchen
  | RoomArchetypeDining
  | RoomArchetypeOffice
  | RoomArchetypeOther

record RoomResourceModel =
  Name :: tf_string
  Id' :: tf_string
  LightIds :: "tf_string list"
  Archetype :: tf_string

record ResourceIdentifier =
  Rid :: "string option"
  Rtype :: "string option"

record RoomPut_Metadata =
  Metadata_Archetype :: "RoomArchetype option"
  Metadata_Name :: "string option"

record RoomPut =
  Metadata :: "RoomPut_Metadata option"
  Children :: "ResourceIdentifier list option"

definition stringToRoomArchetype :: "string \<rightharpoonup> RoomArchetype" where
  "stringToRoomArchetype =
     [''bedroom'' \<mapsto> RoomArchetypeBedroom,
      ''bathroom'' \<mapsto> RoomArchetypeBathroom,
      ''kitchen'' \<mapsto> RoomArchetypeKitchen,
      ''dining'' \<mapsto> RoomArchetypeDining,
      ''office'' \<mapsto> RoomArchetypeOffice,
      ''other'' \<mapsto> RoomArchetypeOther]"

definition mapStringToRoomArchetype :: "string \<Rightarrow> RoomArchetype \<times> bool" where
  "mapStringToRoomArchetype archetype =
     (case stringToRoomArchetype archetype of
        Some val \<Rightarrow> (val, True)
      | None \<Rightarrow> (RoomArchetypeZero, False))"

definition buildRoomPutPayload :: "RoomResourceModel \<Rightarrow> err + RoomPut" where
  "buildRoomPutPayload model =
     (case mapStringToRoomArchetype (ValueString (Archetype model)) of
        (archetype, ok) \<Rightarrow>
          if \<not> ok
          then Inl (ErrTf ''failed to create room: invalid archetype %s'' (Archetype model))
          else Inr \<lparr>Metadata = Some \<lparr>Metadata_Archetype = Some archetype,
                                      Metadata_Name = ValueStringPointer (Name model)\<rparr>,
                    Children = Some (map (\<lambda>lightId. \<lparr>Rid = Some (ValueString lightId),
                                                     Rtype = Some ''device''\<rparr>)
                                       (LightIds model))\<rparr>)"

text \<open>
  The answer of the bridge to a create request: the HTTP status, the body, and what
  \<open>JSON200.Data\<close> holds once the body is unmarshalled (\<open>None\<close> for a nil pointer),
  each entry with its \<open>Rid\<close>.
\<close>

record RoomResponse =
  StatusCode :: nat
  Status :: string
  Body :: "string option"
  JSON200_Data :: "string option list option"

text \<open>
  What \<open>Create\<close> does to the outside: a log line or a REST request with its payload.
\<close>

datatype room_event = RoomLog string tf_string | CreateRoomWithResponse RoomPut

fun is_rest_request :: "room_event \<Rightarrow> bool" where
  "is_rest_request (CreateRoomWithResponse _) = True"
| "is_rest_request (RoomLog _ _) = False"

record Room =
  client :: "Client option"

record CreateRequest =
  Plan_model :: RoomResourceModel
  Plan_diags :: "diagnostic list"

record CreateResponse =
  Create_Diagnostics :: "diagnostic list"
  State :: "RoomResourceModel option"

datatype 'a go_result = Returns 'a | Panics

definition http_StatusCreated :: nat where
  "http_StatusCreated = 201"

text \<open>
  \<open>Room.Create\<close>. \<open>bridge\<close> is the answer of the REST client to a create request
  and \<open>set_diags\<close> the diagnostics of \<open>resp.State.Set\<close>. Dereferencing a nil
  \<open>JSON200.Data\<close> panics.
\<close>

definition Room_Create ::
  "(RoomPut \<Rightarrow> err + RoomResponse) \<Rightarrow> diagnostic list \<Rightarrow> Room \<Rightarrow> CreateRequest
     \<Rightarrow> CreateResponse \<Rightarrow> CreateResponse go_result \<times> room_event list" where
  "Room_Create bridge set_diags r req resp0 =
     (if client r = None
      then (Returns (resp0\<lparr>Create_Diagnostics :=
                             AddError ''failed to create room'' ''client is nil'' None
                               (Create_Diagnostics resp0)\<rparr>), [])
      else
        (let model = Plan_model req;
             resp = resp0\<lparr>Create_Diagnostics := Create_Diagnostics resp0 @ Plan_diags req\<rparr>
         in if HasError (Create_Diagnostics resp) then (Returns resp, [])
            else
              (let tr = [RoomLog ''Creating room %s'' (Name model)]
               in case buildRoomPutPayload model of
                    Inl e \<Rightarrow>
                      (Returns (resp\<lparr>Create_Diagnostics :=
                                       AddError ''failed to create room''
                                         ''failed to create room: %s'' (Some e)
                                         (Create_Diagnostics resp)\<rparr>), tr)
                  | Inr putData \<Rightarrow>
                      (let tr = tr @ [CreateRoomWithResponse putData]
                       in case bridge putData of
                            Inl e \<Rightarrow>
                              (Returns (resp\<lparr>Create_Diagnostics :=
                                               AddError ''failed to create room''
                                                 ''failed to create room: %s'' (Some e)
                                                 (Create_Diagnostics resp)\<rparr>), tr)
                          | Inr apiResp \<Rightarrow>
                              if StatusCode apiResp \<noteq> http_StatusCreated
                              then (Returns (resp\<lparr>Create_Diagnostics :=
                                               AddError ''failed to create room''
                                                 ''failed to create room: %s, response data: %s'' None
                                                 (Create_Diagnostics resp)\<rparr>), tr)
                              else if Body apiResp = None
                              then (Returns (resp\<lparr>Create_Diagnostics :=
                                               AddError ''failed to create room''
                                                 ''failed to create room: no response body'' None
                                                 (Create_Diagnostics resp)\<rparr>), tr)
                              else
                                (case JSON200_Data apiResp of
                                   None \<Rightarrow> (Panics, tr)
                                 | Some [] \<Rightarrow>
                                     (Returns (resp\<lparr>Create_Diagnostics :=
                                                 AddError ''failed to create room''
                                                   ''failed to create room: no data in response body'' None
                                                   (Create_Diagnostics resp)\<rparr>), tr)
                                 | Some (d # ds) \<Rightarrow>
                                     (Returns (resp\<lparr>Create_Diagnostics :=
                                                  Create_Diagnostics resp @ set_diags,
                                                State := Some (model\<lparr>Id' := StringPointerValue d\<rparr>)\<rparr>),
                                      tr))))))"

section \<open>Notions used by the statements\<close>

text \<open>
  A "not yet authorized, please retry" answer of the bridge: an error with the retry
  flag set.
\<close>

definition is_retry :: "auth_reply \<Rightarrow> bool" where
  "is_retry r = (case r of (k, retry, e) \<Rightarrow> e \<noteq> None \<and> retry)"

text \<open>The events of \<open>n\<close> passes through the tick case of the loop.\<close>

fun ticks :: "nat \<Rightarrow> io_event list" where
  "ticks 0 = []"
| "ticks (Suc n) = tick_events @ ticks n"

text \<open>
  The order of resolution in words: the environment variable named by the upper-cased
  key when it is set and not empty, otherwise the value of the cache file when the
  cache is enabled and the file holds the key, otherwise the empty string. The value
  given by the caller does not occur.
\<close>

definition env_then_cache :: "world \<Rightarrow> bool \<Rightarrow> string \<Rightarrow> string \<Rightarrow> string" where
  "env_then_cache w useCache homeDir k =
     (case getEnv (environ w) (ToUpper k) of
        Some y \<Rightarrow> y
      | None \<Rightarrow>
          if useCache
          then (case files w (filepath_Join homeDir cachePath) of
                  Settings m \<Rightarrow> (case m k of Some z \<Rightarrow> z | None \<Rightarrow> [])
                | _ \<Rightarrow> [])
          else [])"

text \<open>
  Names for parts of \<open>GetAuthConfig\<close>: the instance \<open>cfg\<close> once the file is read,
  the global instance after the two calls of \<open>viper.SetDefault\<close>, the log line of
  the cache, and the events of the write at the end.
\<close>

definition loaded :: "world \<Rightarrow> bool \<Rightarrow> string \<Rightarrow> viper" where
  "loaded w useCache homeDir =
     fst (ReadInConfig (files w)
       (AutomaticEnv
          (if useCache
           then SetConfigFile (filepath_Join homeDir cachePath)
                  (SetConfigType ''json'' (SetConfigName ''credentials'' viper_New))
           else SetConfigType ''json'' (SetConfigName ''credentials'' viper_New))))"

definition defaults_set :: "string \<Rightarrow> string \<Rightarrow> viper \<Rightarrow> viper" where
  "defaults_set a k gv = SetDefault ''hue_bridge_api_key'' k (SetDefault ''hue_bridge_ip'' a gv)"

definition cache_note :: "bool \<Rightarrow> io_event list" where
  "cache_note u = (if u then [TfLog Info ''Using cache for Hue bridge credentials'' None] else [])"

definition write_events :: "world \<Rightarrow> bool \<Rightarrow> string \<Rightarrow> io_event list" where
  "write_events w u h =
     (if u
      then SafeWriteConfigAs (filepath_Join h cachePath)
             (SafeWriteConfigAs_result (files w) (write_error w) (filepath_Join h cachePath)) #
           (case SafeWriteConfigAs_result (files w) (write_error w) (filepath_Join h cachePath) of
              None \<Rightarrow> []
            | Some e \<Rightarrow> [TfLog Warn ''Failed to write cache file: %s'' (Some e)])
      else [])"

text \<open>
  Concrete surroundings for the example runs: a user with home directory \<open>/home/u\<close>,
  a given environment, a given cache file, a bridge at \<open>10.0.0.7\<close> that the
  discovery probe finds and that answers pairing requests by a given script.
\<close>

definition example_world :: "(string \<rightharpoonup> string) \<Rightarrow> fs_entry \<Rightarrow> authenticator \<Rightarrow> world" where
  "example_world env cache script =
     \<lparr>UserHomeDir = Inr ''/home/u'', environ = env,
      files = (\<lambda>p. if p = ''/home/u/.openhue-credentials.json'' then cache else Absent),
      write_error = None, discovery = Inr (''10.0.0.7'', ''bridge''),
      newAuthenticator = (\<lambda>ip. Inr script), select_pick = (\<lambda>n. False)\<rparr>"

definition env_Y :: "string \<rightharpoonup> string" where
  "env_Y = [''HUE_BRIDGE_IP'' \<mapsto> ''Y'', ''HUE_BRIDGE_API_KEY'' \<mapsto> ''Y'']"

definition cache_Z :: "string \<rightharpoonup> string" where
  "cache_Z = [''hue_bridge_ip'' \<mapsto> ''Z'', ''hue_bridge_api_key'' \<mapsto> ''Z'']"

definition not_yet :: auth_reply where
  "not_yet = ([], True, Some (Err ''link button not pressed''))"

definition example_model :: "string \<Rightarrow> RoomResourceModel" where
  "example_model a =
     \<lparr>Name = StringValue ''Den'', Id' = StringUnknown,
      LightIds = [StringValue ''light-1''], Archetype = StringValue a\<rparr>"

definition example_client :: Client where
  "example_client = \<lparr>Server = ''https://10.0.0.7'', RequestHeader = (''hue-application-key'', ''KEY'')\<rparr>"

section \<open>The loop of the waiter\<close>

lemma pollLoop_done:
  "select_done (pick n) dl now nt \<Longrightarrow> pollLoop pick dl n now nt s = Some (Inl timeout_err, [])"
  by (simp add: pollLoop.simps)

lemma pollLoop_retry:
  "\<not> select_done (pick n) dl now nt \<Longrightarrow> is_retry r \<Longrightarrow>
   pollLoop pick dl n now nt ((lat, r) # rest) =
     map_option (\<lambda>(res, tr). (res, tick_events @ tr))
       (pollLoop pick dl (Suc n) (max now nt + lat)
          (tick_interval * (max now nt div tick_interval + 1)) rest)"
  by (subst pollLoop.simps)
     (auto simp: is_retry_def authenticateWithBridgeIpOnce_def Let_def)

lemma pollLoop_fatal:
  "\<not> select_done (pick n) dl now nt \<Longrightarrow>
   pollLoop pick dl n now nt ((lat, (k, False, Some e)) # rest) = Some (Inl e, tick_events)"
  by (subst pollLoop.simps) (simp add: authenticateWithBridgeIpOnce_def Let_def)

lemma pollLoop_key:
  "\<not> select_done (pick n) dl now nt \<Longrightarrow> k \<noteq> [] \<Longrightarrow>
   pollLoop pick dl n now nt ((lat, (k, b, None)) # rest) = Some (Inr k, tick_events)"
  by (subst pollLoop.simps) (simp add: authenticateWithBridgeIpOnce_def Let_def)

lemma pollLoop_key_nonempty:
  "pollLoop pick dl n now nt script = Some (res, tr) \<Longrightarrow> res \<noteq> Inr []"
proof (induction script arbitrary: n now nt tr res)
  case Nil
  then show ?case by (auto simp: pollLoop.simps split: if_splits)
next
  case (Cons x xs)
  obtain lat apiKey retry e where x: "x = (lat, apiKey, retry, e)" by (cases x) auto
  from Cons.prems show ?case
    unfolding x
    apply (subst (asm) pollLoop.simps)
    apply (auto simp: Let_def authenticateWithBridgeIpOnce_def
             split: if_splits option.splits prod.splits dest: Cons.IH)
    done
qed

lemma pollLoop_trace:
  "pollLoop pick dl n now nt script = Some (res, tr) \<Longrightarrow> set tr \<subseteq> set tick_events"
proof (induction script arbitrary: n now nt tr res)
  case Nil
  then show ?case by (auto simp: pollLoop.simps split: if_splits)
next
  case (Cons x xs)
  obtain lat apiKey retry e where x: "x = (lat, apiKey, retry, e)" by (cases x) auto
  from Cons.prems show ?case
    unfolding x
    apply (subst (asm) pollLoop.simps)
    apply (auto simp: Let_def split: if_splits option.splits prod.splits dest!: Cons.IH)
    done
qed

lemma not_select_done: "max now nt < dl \<Longrightarrow> \<not> select_done p dl now nt"
  by (auto simp: select_done_def)

lemma next_tick_le: "tick_interval * (t div tick_interval + 1) \<le> t + tick_interval"
  by (simp add: tick_interval_def)

lemma count_tick_events [simp]:
  "count_list tick_events TickerTick = 1" "count_list tick_events Authenticate = 1"
  by (simp_all add: tick_events_def)

lemma count_ticks [simp]:
  "count_list (ticks n) TickerTick = n" "count_list (ticks n) Authenticate = n"
  by (induction n) simp_all

text \<open>
  When the deadline lies beyond the time the retries can take, the loop reaches the
  reply that ends it: a key, or an error that is not a retry.
\<close>

lemma pollLoop_reaches:
  assumes "\<forall>x\<in>set pre. is_retry (snd x)"
    and "max now nt + sum_list (map fst pre) + tick_interval * length pre < dl"
    and last: "\<And>n now nt. \<not> select_done (pick n) dl now nt \<Longrightarrow>
                 pollLoop pick dl n now nt (x # rest) = Some (res, tick_events)"
  shows "pollLoop pick dl n now nt (pre @ x # rest) = Some (res, ticks (Suc (length pre)))"
  using assms(1,2)
proof (induction pre arbitrary: n now nt)
  case Nil
  then show ?case by (simp add: last not_select_done)
next
  case (Cons y ys)
  obtain l r where y: "y = (l, r)" by (cases y)
  let ?t = "max now nt"
  let ?nt' = "tick_interval * (?t div tick_interval + 1)"
  have r: "is_retry r" using Cons.prems(1) y by simp
  have "max now nt < dl" using Cons.prems(2) by linarith
  then have nd: "\<not> select_done (pick n) dl now nt" by (rule not_select_done)
  have "max (?t + l) ?nt' \<le> ?t + l + tick_interval"
    using next_tick_le [of ?t] by linarith
  then have b: "max (?t + l) ?nt' + sum_list (map fst ys) + tick_interval * length ys < dl"
    using Cons.prems(2) y by simp
  have "pollLoop pick dl (Suc n) (?t + l) ?nt' (ys @ x # rest)
          = Some (res, ticks (Suc (length ys)))"
    using Cons.IH [OF _ b] Cons.prems(1) by simp
  then show ?case
    using pollLoop_retry [of pick n dl now nt r l "ys @ x # rest"] nd r y by simp
qed

text \<open>
  Whatever the timing, a script of retries followed by an error that is not a retry
  ends either with that error, after exactly one request per reply up to it, or with
  the timeout before the error is reached.
\<close>

lemma pollLoop_failed:
  "\<forall>x\<in>set pre. is_retry (snd x) \<Longrightarrow>
   \<exists>res tr. pollLoop pick dl n now nt (pre @ (lat, (k, False, Some e)) # rest) = Some (res, tr)
     \<and> count_list tr TickerTick = count_list tr Authenticate
     \<and> (res = Inl e \<and> count_list tr Authenticate = length pre + 1
        \<or> res = Inl timeout_err \<and> count_list tr Authenticate \<le> length pre)"
proof (induction pre arbitrary: n now nt)
  case Nil
  show ?case
  proof (cases "select_done (pick n) dl now nt")
    case True
    then show ?thesis by (simp add: pollLoop_done)
  next
    case False
    then show ?thesis by (simp add: pollLoop_fatal)
  qed
next
  case (Cons x xs)
  obtain l r where x: "x = (l, r)" by (cases x)
  have r: "is_retry r" using Cons.prems x by simp
  show ?case
  proof (cases "select_done (pick n) dl now nt")
    case True
    then show ?thesis by (simp add: pollLoop_done)
  next
    case False
    let ?t = "max now nt"
    from Cons.IH [of "Suc n" "?t + l" "tick_interval * (?t div tick_interval + 1)"] Cons.prems
    obtain res tr where
      "pollLoop pick dl (Suc n) (?t + l) (tick_interval * (?t div tick_interval + 1))
         (xs @ (lat, (k, False, Some e)) # rest) = Some (res, tr)"
      "count_list tr TickerTick = count_list tr Authenticate"
      "res = Inl e \<and> count_list tr Authenticate = length xs + 1
        \<or> res = Inl timeout_err \<and> count_list tr Authenticate \<le> length xs"
      by auto
    then show ?thesis
      using pollLoop_retry [of pick n dl now nt r l "xs @ (lat, (k, False, Some e)) # rest"]
        False r x
      by auto
  qed
qed

text \<open>
  A script of retries, each answered within a tick interval, ends with the timeout:
  no tick waits in the channel, so once the deadline has passed the \<open>select\<close> finds
  the context done before the next tick. The ticks are counted against the deadline.
\<close>

lemma pollLoop_timed_out:
  "\<forall>x\<in>set script. is_retry (snd x) \<and> fst x < tick_interval \<Longrightarrow>
   tick_interval dvd nt \<Longrightarrow> now < nt \<Longrightarrow> dl < nt + tick_interval * length script \<Longrightarrow>
   \<exists>tr. pollLoop pick dl n now nt script = Some (Inl timeout_err, tr)
     \<and> count_list tr Authenticate = count_list tr TickerTick
     \<and> dl \<le> nt + tick_interval * count_list tr TickerTick
     \<and> (0 < count_list tr TickerTick \<longrightarrow>
           nt + tick_interval * count_list tr TickerTick \<le> dl + tick_interval)"
proof (induction script arbitrary: n now nt)
  case Nil
  then have "select_done (pick n) dl now nt" by (simp add: select_done_def)
  then show ?case using Nil.prems(4) by (simp add: pollLoop_done)
next
  case (Cons x xs)
  obtain l r where x: "x = (l, r)" by (cases x)
  have r: "is_retry r" and l: "l < tick_interval" using Cons.prems(1) x by simp_all
  have t: "max now nt = nt" using Cons.prems(3) by simp
  show ?case
  proof (cases "select_done (pick n) dl now nt")
    case True
    then have "dl \<le> nt"
      using Cons.prems(3) by (auto simp: select_done_def t max_def split: if_splits)
    then show ?thesis using True by (simp add: pollLoop_done)
  next
    case False
    then have le: "nt \<le> dl"
      using Cons.prems(3) by (auto simp: select_done_def t max_def split: if_splits)
    obtain q where q: "nt = tick_interval * q" using Cons.prems(2) by (auto simp: dvd_def)
    have nt': "tick_interval * (nt div tick_interval + 1) = nt + tick_interval"
      unfolding q by (simp add: tick_interval_def)
    have p1: "\<forall>x\<in>set xs. is_retry (snd x) \<and> fst x < tick_interval"
      using Cons.prems(1) by simp
    have p2: "tick_interval dvd nt + tick_interval" using Cons.prems(2) by simp
    have p3: "nt + l < nt + tick_interval" using l by simp
    have p4: "dl < nt + tick_interval + tick_interval * length xs" using Cons.prems(4) by simp
    from Cons.IH [OF p1 p2 p3 p4, of "Suc n"]
    obtain tr where tr:
      "pollLoop pick dl (Suc n) (nt + l) (nt + tick_interval) xs = Some (Inl timeout_err, tr)
       \<and> count_list tr Authenticate = count_list tr TickerTick
       \<and> dl \<le> nt + tick_interval + tick_interval * count_list tr TickerTick
       \<and> (0 < count_list tr TickerTick \<longrightarrow>
           nt + tick_interval + tick_interval * count_list tr TickerTick \<le> dl + tick_interval)" ..
    let ?c = "count_list tr TickerTick"
    have "pollLoop pick dl n now nt (x # xs) =
            map_option (\<lambda>(res, tr). (res, tick_events @ tr))
              (pollLoop pick dl (Suc n) (max now nt + l)
                 (tick_interval * (max now nt div tick_interval + 1)) xs)"
      unfolding x using False r by (rule pollLoop_retry)
    also have "\<dots> = Some (Inl timeout_err, tick_events @ tr)"
      unfolding t nt' tr [THEN conjunct1] by simp
    finally have run:
      "pollLoop pick dl n now nt (x # xs) = Some (Inl timeout_err, tick_events @ tr)" .
    have c: "count_list (tick_events @ tr) TickerTick = Suc ?c"
         "count_list (tick_events @ tr) Authenticate = Suc ?c"
      using tr by simp_all
    have lo: "dl \<le> nt + tick_interval * Suc ?c" using tr by simp
    have hi: "nt + tick_interval * Suc ?c \<le> dl + tick_interval"
    proof (cases "?c = 0")
      case True
      then show ?thesis using le by simp
    next
      case False
      then show ?thesis using tr by simp
    qed
    show ?thesis using run c lo hi by simp
  qed
qed

text \<open>
  When every answer takes a tick interval or longer, a tick waits in the channel each
  time the loop comes back to its \<open>select\<close>. Past the deadline both cases are then
  ready, and in a run in which the runtime takes the tick each time, the loop polls
  on, whatever the deadline, until the bridge gives a key.
\<close>

lemma pollLoop_slow:
  assumes "\<forall>n. \<not> pick n"
    and "\<forall>x\<in>set pre. is_retry (snd x) \<and> tick_interval \<le> fst x"
    and "nt \<le> now \<or> nt \<le> dl" and "k \<noteq> []"
  shows "pollLoop pick dl n now nt (pre @ (lat, (k, b, None)) # rest)
           = Some (Inr k, ticks (Suc (length pre)))"
  using assms(2,3)
proof (induction pre arbitrary: n now nt)
  case Nil
  have "\<not> select_done (pick n) dl now nt"
    using Nil.prems(2) assms(1) by (auto simp: select_done_def)
  then show ?case using assms(4) by (simp add: pollLoop_key)
next
  case (Cons y ys)
  obtain l r where y: "y = (l, r)" by (cases y)
  let ?t = "max now nt"
  let ?nt' = "tick_interval * (?t div tick_interval + 1)"
  have r: "is_retry r" and l: "tick_interval \<le> l" using Cons.prems(1) y by simp_all
  have nd: "\<not> select_done (pick n) dl now nt"
    using Cons.prems(2) assms(1) by (auto simp: select_done_def)
  have "?nt' \<le> ?t + l" using next_tick_le [of ?t] l by linarith
  then have inv: "?nt' \<le> ?t + l \<or> ?nt' \<le> dl" by simp
  have rest': "\<forall>x\<in>set ys. is_retry (snd x) \<and> tick_interval \<le> fst x"
    using Cons.prems(1) by simp
  have "pollLoop pick dl (Suc n) (?t + l) ?nt' (ys @ (lat, (k, b, None)) # rest)
          = Some (Inr k, ticks (Suc (length ys)))"
    by (rule Cons.IH [OF rest' inv])
  then show ?case
    using pollLoop_retry [of pick n dl now nt r l "ys @ (lat, (k, b, None)) # rest"] nd r y
    by simp
qed

lemma waiter_trace:
  "authenticateWithBridgeIp w c ip = Some (res, tr) \<Longrightarrow>
   set tr \<subseteq> insert (NewAuthenticator ip) (set tick_events)"
  by (auto simp: authenticateWithBridgeIp_def Let_def split: sum.splits dest!: pollLoop_trace)

lemma waiter_no_write:
  "authenticateWithBridgeIp w c ip = Some (res, tr) \<Longrightarrow> SafeWriteConfigAs p x \<notin> set tr"
  by (auto simp: tick_events_def dest!: waiter_trace)

lemma waiter_write_error [simp]:
  "authenticateWithBridgeIp (w\<lparr>write_error := e\<rparr>) c ip = authenticateWithBridgeIp w c ip"
  by (simp add: authenticateWithBridgeIp_def split: sum.splits)

section \<open>The settings that GetAuthConfig reads\<close>

lemma ToUpper_ip: "ToUpper ''hue_bridge_ip'' = ''HUE_BRIDGE_IP''"
  unfolding ToUpper_def by code_simp

lemma ToUpper_key: "ToUpper ''hue_bridge_api_key'' = ''HUE_BRIDGE_API_KEY''"
  unfolding ToUpper_def by code_simp

lemma example_path: "filepath_Join ''/home/u'' cachePath = ''/home/u/.openhue-credentials.json''"
  by (simp add: filepath_Join_def cachePath_def)

lemma loaded_fields:
  "override (loaded w u h) = Map.empty" "defaults (loaded w u h) = Map.empty"
  "automaticEnvApplied (loaded w u h)"
  by (auto simp: loaded_def ReadInConfig_def AutomaticEnv_def SetConfigFile_def SetConfigType_def
       SetConfigName_def viper_New_def split: fs_entry.splits)

lemma loaded_config:
  "config (loaded w u h) k =
     (if u then (case files w (filepath_Join h cachePath) of
                  Settings m \<Rightarrow> m k | _ \<Rightarrow> None) else None)"
  by (auto simp: loaded_def ReadInConfig_def AutomaticEnv_def SetConfigFile_def SetConfigType_def
       SetConfigName_def viper_New_def filepath_Join_def split: fs_entry.splits)

text \<open>
  The instance \<open>cfg\<close> holds no value from \<open>Set\<close> and no default when the file is
  read, so a lookup in it is the order of \<open>env_then_cache\<close>.
\<close>

lemma GetString_loaded:
  "GetString (environ w) (loaded w u h) k = env_then_cache w u h k"
  by (simp add: GetString_def loaded_fields loaded_config env_then_cache_def
       split: option.splits fs_entry.splits)

lemma GetString_Set_same: "GetString env (Set_override k x v) k = x"
  by (simp add: GetString_def Set_override_def)

lemma GetString_Set_other:
  "k' \<noteq> k \<Longrightarrow> GetString env (Set_override k x v) k' = GetString env v k'"
  by (simp add: GetString_def Set_override_def split: option.splits)

lemma env_then_cache_write_error [simp]:
  "env_then_cache (w\<lparr>write_error := e\<rparr>) u h k = env_then_cache w u h k"
  by (simp add: env_then_cache_def split: option.splits)

lemmas fold_notes = defaults_set_def [symmetric] cache_note_def [symmetric]
  write_events_def [symmetric] loaded_def [symmetric]

subsection \<open>GetAuthConfig, path by path\<close>

lemma GetAuthConfig_no_home:
  "UserHomeDir w = Inl e \<Longrightarrow>
   GetAuthConfig w gv c a k u =
     Some (Inl (Wrapf ''failed to get user home directory: %w'' e), gv, [])"
  by (simp add: GetAuthConfig_def)

lemma GetAuthConfig_known:
  assumes "UserHomeDir w = Inr h" "a \<noteq> ''discover''"
    and "env_then_cache w u h ''hue_bridge_ip'' \<noteq> []"
    and "env_then_cache w u h ''hue_bridge_api_key'' \<noteq> []"
  shows "GetAuthConfig w gv c a k u =
     Some (Inr \<lparr>BridgeIp = env_then_cache w u h ''hue_bridge_ip'',
                 BridgeApiKey = env_then_cache w u h ''hue_bridge_api_key''\<rparr>,
           defaults_set a k gv, cache_note u @ write_events w u h)"
  using assms
  by (simp add: GetAuthConfig_def Let_def fold_notes GetString_loaded)

lemma GetAuthConfig_pairing:
  assumes "UserHomeDir w = Inr h" "a \<noteq> ''discover''"
    and "env_then_cache w u h ''hue_bridge_ip'' \<noteq> []"
    and "env_then_cache w u h ''hue_bridge_api_key'' = []"
  shows "GetAuthConfig w gv c a k u =
     (case authenticateWithBridgeIp w c (env_then_cache w u h ''hue_bridge_ip'') of
        None \<Rightarrow> None
      | Some (Inl e, tr) \<Rightarrow>
          Some (Inl (Wrapf ''failed to authenticate with Hue Bridge: %w'' e),
                defaults_set a k gv, cache_note u @ pairing_note # tr)
      | Some (Inr key, tr) \<Rightarrow>
          Some (Inr \<lparr>BridgeIp = env_then_cache w u h ''hue_bridge_ip'', BridgeApiKey = key\<rparr>,
                defaults_set a k gv, cache_note u @ pairing_note # tr @ write_events w u h))"
  using assms
  by (simp add: GetAuthConfig_def Let_def fold_notes GetString_loaded GetString_Set_same
        GetString_Set_other split: option.splits sum.splits prod.splits)

lemma GetAuthConfig_discovery_failed:
  assumes "UserHomeDir w = Inr h"
    and "env_then_cache w u h ''hue_bridge_ip'' = [] \<or> a = ''discover''"
    and "discovery w = Inl e"
  shows "GetAuthConfig w gv c a k u =
     Some (Inl (Wrapf ''failed to discover Hue Bridge: %w'' e), defaults_set a k gv,
           cache_note u @ [discover_note, Discover])"
  using assms
  by (auto simp: GetAuthConfig_def Let_def fold_notes GetString_loaded)

lemma GetAuthConfig_discovered:
  assumes "UserHomeDir w = Inr h"
    and "env_then_cache w u h ''hue_bridge_ip'' = [] \<or> a = ''discover''"
    and "discovery w = Inr (d, i)"
    and "env_then_cache w u h ''hue_bridge_api_key'' \<noteq> []"
  shows "GetAuthConfig w gv c a k u =
     Some (Inr \<lparr>BridgeIp = d, BridgeApiKey = env_then_cache w u h ''hue_bridge_api_key''\<rparr>,
           defaults_set a k gv,
           cache_note u @ [discover_note, Discover,
             TfLog Info ''Successfully discovered Hue Bridge'' None] @ write_events w u h)"
  using assms
  by (auto simp: GetAuthConfig_def Let_def fold_notes GetString_loaded GetString_Set_same
        GetString_Set_other)

lemma GetAuthConfig_discovered_pairing:
  assumes "UserHomeDir w = Inr h"
    and "env_then_cache w u h ''hue_bridge_ip'' = [] \<or> a = ''discover''"
    and "discovery w = Inr (d, i)"
    and "env_then_cache w u h ''hue_bridge_api_key'' = []"
  shows "GetAuthConfig w gv c a k u =
     (case authenticateWithBridgeIp w c d of
        None \<Rightarrow> None
      | Some (Inl e, tr) \<Rightarrow>
          Some (Inl (Wrapf ''failed to authenticate with Hue Bridge: %w'' e),
                defaults_set a k gv,
                cache_note u @ [discover_note, Discover,
                  TfLog Info ''Successfully discovered Hue Bridge'' None] @ pairing_note # tr)
      | Some (Inr key, tr) \<Rightarrow>
          Some (Inr \<lparr>BridgeIp = d, BridgeApiKey = key\<rparr>,
                defaults_set a k gv,
                cache_note u @ [discover_note, Discover,
                  TfLog Info ''Successfully discovered Hue Bridge'' None] @ pairing_note # tr
                @ write_events w u h))"
  using assms
  by (auto simp: GetAuthConfig_def Let_def fold_notes GetString_loaded GetString_Set_same
        GetString_Set_other split: option.splits sum.splits prod.splits)

lemma GetAuthConfig_cases
  [case_names no_home known pairing discovery_failed discovered discovered_pairing]:
  obtains e where "UserHomeDir w = Inl e"
  | h where "UserHomeDir w = Inr h" "a \<noteq> ''discover''"
      "env_then_cache w u h ''hue_bridge_ip'' \<noteq> []"
      "env_then_cache w u h ''hue_bridge_api_key'' \<noteq> []"
  | h where "UserHomeDir w = Inr h" "a \<noteq> ''discover''"
      "env_then_cache w u h ''hue_bridge_ip'' \<noteq> []"
      "env_then_cache w u h ''hue_bridge_api_key'' = []"
  | h e where "UserHomeDir w = Inr h"
      "env_then_cache w u h ''hue_bridge_ip'' = [] \<or> a = ''discover''"
      "discovery w = Inl e"
  | h d i where "UserHomeDir w = Inr h"
      "env_then_cache w u h ''hue_bridge_ip'' = [] \<or> a = ''discover''"
      "discovery w = Inr (d, i)"
      "env_then_cache w u h ''hue_bridge_api_key'' \<noteq> []"
  | h d i where "UserHomeDir w = Inr h"
      "env_then_cache w u h ''hue_bridge_ip'' = [] \<or> a = ''discover''"
      "discovery w = Inr (d, i)"
      "env_then_cache w u h ''hue_bridge_api_key'' = []"
proof (cases "UserHomeDir w")
  case (Inl e)
  then show ?thesis by (rule that(1))
next
  case home: (Inr h)
  show ?thesis
  proof (cases "env_then_cache w u h ''hue_bridge_ip'' = [] \<or> a = ''discover''")
    case probe: True
    show ?thesis
    proof (cases "discovery w")
      case (Inl e)
      with home probe show ?thesis by (rule that(4))
    next
      case (Inr di)
      then have disc: "discovery w = Inr (fst di, snd di)" by simp
      show ?thesis
      proof (cases "env_then_cache w u h ''hue_bridge_api_key'' = []")
        case True
        with home probe disc show ?thesis by (rule that(6))
      next
        case False
        with home probe disc show ?thesis by (rule that(5))
      qed
    qed
  next
    case False
    then have a: "a \<noteq> ''discover''" and ip: "env_then_cache w u h ''hue_bridge_ip'' \<noteq> []"
      by simp_all
    show ?thesis
    proof (cases "env_then_cache w u h ''hue_bridge_api_key'' = []")
      case True
      with home a ip show ?thesis by (rule that(3))
    next
      case False
      with home a ip show ?thesis by (rule that(2))
    qed
  qed
qed

lemma notes_no_write [simp]:
  "SafeWriteConfigAs p x \<notin> set (cache_note u)"
  "SafeWriteConfigAs p x \<noteq> pairing_note" "SafeWriteConfigAs p x \<noteq> discover_note"
  by (simp_all add: cache_note_def pairing_note_def discover_note_def)

text \<open>
  Every run that returns an error stops before the write; every run that returns
  credentials ends with the events of the write, and nothing before them is a write.
\<close>

lemma GetAuthConfig_shape:
  assumes run: "GetAuthConfig w gv c a k u = Some (r, g, tr)"
  shows "\<exists>pre. (\<forall>p x. SafeWriteConfigAs p x \<notin> set pre)
     \<and> ((\<exists>e. r = Inl e) \<and> tr = pre
        \<or> (\<exists>h cfg. UserHomeDir w = Inr h \<and> r = Inr cfg \<and> tr = pre @ write_events w u h))"
proof (cases rule: GetAuthConfig_cases [where w = w and a = a and u = u])
  case (no_home e)
  with run show ?thesis by (auto simp: GetAuthConfig_no_home)
next
  case (known h)
  from run GetAuthConfig_known [OF known, of gv c k] known(1) show ?thesis
    by (intro exI [of _ "cache_note u"]) auto
next
  case (pairing h)
  from run GetAuthConfig_pairing [OF pairing, of gv c k]
  obtain res tr' where
    w: "authenticateWithBridgeIp w c (env_then_cache w u h ''hue_bridge_ip'') = Some (res, tr')"
    by (auto split: option.splits)
  from waiter_no_write [OF w] run GetAuthConfig_pairing [OF pairing, of gv c k] w pairing(1)
  show ?thesis
    by (intro exI [of _ "cache_note u @ pairing_note # tr'"]) (auto split: sum.splits)
next
  case (discovery_failed h e)
  from run GetAuthConfig_discovery_failed [OF discovery_failed, of gv c k] show ?thesis
    by (intro exI [of _ "cache_note u @ [discover_note, Discover]"]) auto
next
  case (discovered h d i)
  from run GetAuthConfig_discovered [OF discovered, of gv c k] discovered(1) show ?thesis
    by (intro exI [of _ "cache_note u @ [discover_note, Discover,
             TfLog Info ''Successfully discovered Hue Bridge'' None]"]) auto
next
  case (discovered_pairing h d i)
  from run GetAuthConfig_discovered_pairing [OF discovered_pairing, of gv c k]
  obtain res tr' where w: "authenticateWithBridgeIp w c d = Some (res, tr')"
    by (auto split: option.splits)
  from waiter_no_write [OF w] run
    GetAuthConfig_discovered_pairing [OF discovered_pairing, of gv c k] w discovered_pairing(1)
  show ?thesis
    by (intro exI [of _ "cache_note u @ [discover_note, Discover,
             TfLog Info ''Successfully discovered Hue Bridge'' None] @ pairing_note # tr'"])
       (auto split: sum.splits)
qed

lemma GetAuthConfig_write_error:
  "map_option fst (GetAuthConfig (w\<lparr>write_error := e'\<rparr>) gv c a k u)
     = map_option fst (GetAuthConfig w gv c a k u)"
proof (cases rule: GetAuthConfig_cases [where w = w and a = a and u = u])
  case (no_home e)
  then show ?thesis by (simp add: GetAuthConfig_no_home)
next
  case (known h)
  have "GetAuthConfig (w\<lparr>write_error := e'\<rparr>) gv c a k u =
     Some (Inr \<lparr>BridgeIp = env_then_cache w u h ''hue_bridge_ip'',
                 BridgeApiKey = env_then_cache w u h ''hue_bridge_api_key''\<rparr>,
           defaults_set a k gv, cache_note u @ write_events (w\<lparr>write_error := e'\<rparr>) u h)"
    using known GetAuthConfig_known [of "w\<lparr>write_error := e'\<rparr>" h a u gv c k] by simp
  then show ?thesis using GetAuthConfig_known [OF known, of gv c k] by simp
next
  case (pairing h)
  from GetAuthConfig_pairing [of "w\<lparr>write_error := e'\<rparr>" h a u gv c k]
       GetAuthConfig_pairing [OF pairing, of gv c k] pairing
  show ?thesis by (simp split: option.splits sum.splits prod.splits)
next
  case (discovery_failed h e)
  from GetAuthConfig_discovery_failed [of "w\<lparr>write_error := e'\<rparr>" h u a e gv c k]
       GetAuthConfig_discovery_failed [OF discovery_failed, of gv c k] discovery_failed
  show ?thesis by simp
next
  case (discovered h d i)
  from GetAuthConfig_discovered [of "w\<lparr>write_error := e'\<rparr>" h u a d i gv c k]
       GetAuthConfig_discovered [OF discovered, of gv c k] discovered
  show ?thesis by simp
next
  case (discovered_pairing h d i)
  from GetAuthConfig_discovered_pairing [of "w\<lparr>write_error := e'\<rparr>" h u a d i gv c k]
       GetAuthConfig_discovered_pairing [OF discovered_pairing, of gv c k] discovered_pairing
  show ?thesis by (simp split: option.splits sum.splits prod.splits)
qed

section \<open>Claims about GetAuthConfig\<close>

text \<open>
  C1, as the code has it. For the bridge address and for the API key, each on its own,
  \<open>GetAuthConfig\<close> resolves the value by the order of \<open>env_then_cache\<close>: the
  environment variable, then the value of the cache file when the cache is enabled;
  the value given by the caller outranks neither. Whenever that order yields an
  address and the address given by the caller is not the word \<open>discover\<close>, every
  run that returns credentials returns that address, whatever path the API key takes.
  Whenever that order yields an API key, every run that returns credentials returns
  that key, whatever path the address takes. When it yields both, the run returns
  credentials, and they are these two values. So with the caller's value "X", the
  environment value "Y" and the cached value "Z" the result is "Y"; without the
  caller's value it is "Y"; without the environment value as well it is "Z".
\<close>

theorem GetAuthConfig_resolves_env_then_cache:
  assumes "UserHomeDir w = Inr h"
  shows "(tfBridgeIp \<noteq> ''discover'' \<and> env_then_cache w useCache h ''hue_bridge_ip'' \<noteq> [] \<longrightarrow>
            (\<forall>r g tr. GetAuthConfig w gv c tfBridgeIp tfBridgeApiKey useCache = Some (Inr r, g, tr)
               \<longrightarrow> BridgeIp r = env_then_cache w useCache h ''hue_bridge_ip''))
     \<and> (env_then_cache w useCache h ''hue_bridge_api_key'' \<noteq> [] \<longrightarrow>
            (\<forall>r g tr. GetAuthConfig w gv c tfBridgeIp tfBridgeApiKey useCache = Some (Inr r, g, tr)
               \<longrightarrow> BridgeApiKey r = env_then_cache w useCache h ''hue_bridge_api_key''))
     \<and> (tfBridgeIp \<noteq> ''discover'' \<and> env_then_cache w useCache h ''hue_bridge_ip'' \<noteq> []
          \<and> env_then_cache w useCache h ''hue_bridge_api_key'' \<noteq> [] \<longrightarrow>
            map_option fst (GetAuthConfig w gv c tfBridgeIp tfBridgeApiKey useCache) =
              Some (Inr \<lparr>BridgeIp = env_then_cache w useCache h ''hue_bridge_ip'',
                          BridgeApiKey = env_then_cache w useCache h ''hue_bridge_api_key''\<rparr>))"
proof (cases rule: GetAuthConfig_cases [where w = w and a = tfBridgeIp and u = useCache])
  case (no_home e)
  with assms show ?thesis by simp
next
  case (known h')
  with assms have "h' = h" by simp
  with known GetAuthConfig_known [OF known, of gv c tfBridgeApiKey] show ?thesis by simp
next
  case (pairing h')
  with assms have "h' = h" by simp
  with pairing GetAuthConfig_pairing [OF pairing, of gv c tfBridgeApiKey] show ?thesis
    by (auto split: option.splits sum.splits prod.splits)
next
  case (discovery_failed h' e)
  with assms have "h' = h" by simp
  with discovery_failed
    GetAuthConfig_discovery_failed [OF discovery_failed, of gv c tfBridgeApiKey]
  show ?thesis by auto
next
  case (discovered h' d i)
  with assms have "h' = h" by simp
  with discovered GetAuthConfig_discovered [OF discovered, of gv c tfBridgeApiKey]
  show ?thesis by auto
next
  case (discovered_pairing h' d i)
  with assms have "h' = h" by simp
  with discovered_pairing
    GetAuthConfig_discovered_pairing [OF discovered_pairing, of gv c tfBridgeApiKey]
  show ?thesis by (auto split: option.splits sum.splits prod.splits)
qed

text \<open>
  Five runs. The caller gives "X", the environment "Y", the cache "Z"; then the same
  without the caller's values; then without the environment as well. Then a run in
  which only the address is in the environment, so that the key comes from pairing:
  the address returned is still the one of the environment. Then a run in which only
  the key is in the cache, so that the address comes from discovery: the key returned
  is still the cached one.
\<close>

theorem GetAuthConfig_resolves_env_then_cache_witness:
  "map_option fst (GetAuthConfig (example_world env_Y (Settings cache_Z) []) viper_New None
      ''X'' ''X'' True) = Some (Inr \<lparr>BridgeIp = ''Y'', BridgeApiKey = ''Y''\<rparr>)
   \<and> map_option fst (GetAuthConfig (example_world env_Y (Settings cache_Z) []) viper_New None
      [] [] True) = Some (Inr \<lparr>BridgeIp = ''Y'', BridgeApiKey = ''Y''\<rparr>)
   \<and> map_option fst (GetAuthConfig (example_world Map.empty (Settings cache_Z) []) viper_New None
      [] [] True) = Some (Inr \<lparr>BridgeIp = ''Z'', BridgeApiKey = ''Z''\<rparr>)
   \<and> (\<exists>r g tr. GetAuthConfig
          (example_world [''HUE_BRIDGE_IP'' \<mapsto> ''Y''] Absent [(95, (''KEY'', False, None))])
          viper_New None ''X'' ''X'' False = Some (Inr r, g, tr)
        \<and> BridgeIp r = ''Y'' \<and> BridgeApiKey r = ''KEY'')
   \<and> (\<exists>r g tr. GetAuthConfig
          (example_world Map.empty (Settings [''hue_bridge_api_key'' \<mapsto> ''Z'']) [])
          viper_New None ''X'' ''X'' True = Some (Inr r, g, tr)
        \<and> BridgeIp r = ''10.0.0.7'' \<and> BridgeApiKey r = ''Z'')"
proof -
  let ?wy = "example_world env_Y (Settings cache_Z) []"
  let ?wz = "example_world Map.empty (Settings cache_Z) []"
  let ?wp = "example_world [''HUE_BRIDGE_IP'' \<mapsto> ''Y''] Absent [(95, (''KEY'', False, None))]"
  let ?wd = "example_world Map.empty (Settings [''hue_bridge_api_key'' \<mapsto> ''Z'']) []"
  have home: "UserHomeDir ?wy = Inr ''/home/u''" "UserHomeDir ?wz = Inr ''/home/u''"
    "UserHomeDir ?wp = Inr ''/home/u''" "UserHomeDir ?wd = Inr ''/home/u''"
    by (simp_all add: example_world_def)
  have y: "env_then_cache ?wy True ''/home/u'' ''hue_bridge_ip'' = ''Y''"
          "env_then_cache ?wy True ''/home/u'' ''hue_bridge_api_key'' = ''Y''"
    by (simp_all add: env_then_cache_def example_world_def env_Y_def getEnv_def
          ToUpper_ip ToUpper_key)
  have z: "env_then_cache ?wz True ''/home/u'' ''hue_bridge_ip'' = ''Z''"
          "env_then_cache ?wz True ''/home/u'' ''hue_bridge_api_key'' = ''Z''"
    by (simp_all add: env_then_cache_def example_world_def cache_Z_def getEnv_def
          ToUpper_ip ToUpper_key example_path)
  have p: "env_then_cache ?wp False ''/home/u'' ''hue_bridge_ip'' = ''Y''"
          "env_then_cache ?wp False ''/home/u'' ''hue_bridge_api_key'' = []"
    by (simp_all add: env_then_cache_def example_world_def getEnv_def ToUpper_ip ToUpper_key)
  have d: "env_then_cache ?wd True ''/home/u'' ''hue_bridge_ip'' = []"
          "env_then_cache ?wd True ''/home/u'' ''hue_bridge_api_key'' = ''Z''"
    by (simp_all add: env_then_cache_def example_world_def getEnv_def ToUpper_ip ToUpper_key
          example_path)
  have a1: "map_option fst (GetAuthConfig ?wy viper_New None ''X'' ''X'' True)
              = Some (Inr \<lparr>BridgeIp = ''Y'', BridgeApiKey = ''Y''\<rparr>)"
    using GetAuthConfig_resolves_env_then_cache
            [OF home(1), of "''X''" True viper_New None "''X''"] y by simp
  have a2: "map_option fst (GetAuthConfig ?wy viper_New None [] [] True)
              = Some (Inr \<lparr>BridgeIp = ''Y'', BridgeApiKey = ''Y''\<rparr>)"
    using GetAuthConfig_resolves_env_then_cache
            [OF home(1), of "[]" True viper_New None "[]"] y by simp
  have a3: "map_option fst (GetAuthConfig ?wz viper_New None [] [] True)
              = Some (Inr \<lparr>BridgeIp = ''Z'', BridgeApiKey = ''Z''\<rparr>)"
    using GetAuthConfig_resolves_env_then_cache
            [OF home(2), of "[]" True viper_New None "[]"] z by simp
  have waiter: "authenticateWithBridgeIp ?wp None ''Y''
                  = Some (Inr ''KEY'', NewAuthenticator ''Y'' # tick_events)"
    by (simp add: authenticateWithBridgeIp_def example_world_def pollLoop.simps select_done_def
          authenticateWithBridgeIpOnce_def WithTimeout_def time_Minute_def tick_interval_def
          Let_def)
  have "\<exists>g tr. GetAuthConfig ?wp viper_New None ''X'' ''X'' False
                 = Some (Inr \<lparr>BridgeIp = ''Y'', BridgeApiKey = ''KEY''\<rparr>, g, tr)"
    using GetAuthConfig_pairing [OF home(3), of "''X''" False viper_New None "''X''"] p waiter
    by simp
  then obtain g4 tr4 where run4: "GetAuthConfig ?wp viper_New None ''X'' ''X'' False
                 = Some (Inr \<lparr>BridgeIp = ''Y'', BridgeApiKey = ''KEY''\<rparr>, g4, tr4)"
    by blast
  have ne4: "''X'' \<noteq> ''discover'' \<and> env_then_cache ?wp False ''/home/u'' ''hue_bridge_ip'' \<noteq> []"
    using p by simp
  have "BridgeIp \<lparr>BridgeIp = ''Y'', BridgeApiKey = ''KEY''\<rparr>
          = env_then_cache ?wp False ''/home/u'' ''hue_bridge_ip''"
    by (rule GetAuthConfig_resolves_env_then_cache
               [OF home(3), of "''X''" False viper_New None "''X''",
                THEN conjunct1, rule_format, OF ne4 run4])
  with run4 p have a4: "\<exists>r g tr. GetAuthConfig ?wp viper_New None ''X'' ''X'' False
          = Some (Inr r, g, tr) \<and> BridgeIp r = ''Y'' \<and> BridgeApiKey r = ''KEY''"
    by simp
  have disc: "discovery ?wd = Inr (''10.0.0.7'', ''bridge'')" by (simp add: example_world_def)
  have "\<exists>g tr. GetAuthConfig ?wd viper_New None ''X'' ''X'' True
                 = Some (Inr \<lparr>BridgeIp = ''10.0.0.7'', BridgeApiKey = ''Z''\<rparr>, g, tr)"
    using GetAuthConfig_discovered [OF home(4) _ disc, of True "''X''" viper_New None "''X''"] d
    by simp
  then obtain g5 tr5 where run5: "GetAuthConfig ?wd viper_New None ''X'' ''X'' True
                 = Some (Inr \<lparr>BridgeIp = ''10.0.0.7'', BridgeApiKey = ''Z''\<rparr>, g5, tr5)"
    by blast
  have ne5: "env_then_cache ?wd True ''/home/u'' ''hue_bridge_api_key'' \<noteq> []"
    using d by simp
  have "BridgeApiKey \<lparr>BridgeIp = ''10.0.0.7'', BridgeApiKey = ''Z''\<rparr>
          = env_then_cache ?wd True ''/home/u'' ''hue_bridge_api_key''"
    by (rule GetAuthConfig_resolves_env_then_cache
               [OF home(4), of "''X''" True viper_New None "''X''",
                THEN conjunct2, THEN conjunct1, rule_format, OF ne5 run5])
  with run5 d have a5: "\<exists>r g tr. GetAuthConfig ?wd viper_New None ''X'' ''X'' True
          = Some (Inr r, g, tr) \<and> BridgeIp r = ''10.0.0.7'' \<and> BridgeApiKey r = ''Z''"
    by simp
  from a1 a2 a3 a4 a5 show ?thesis by (intro conjI)
qed

text \<open>
  The order of the specification, with the caller's value first, fails at the first
  of these runs: the caller gives "X" for both values, and "Y" comes back.
\<close>

theorem explicit_value_outranked_by_environment:
  "map_option fst (GetAuthConfig (example_world env_Y (Settings cache_Z) []) viper_New None
      ''X'' ''X'' True) = Some (Inr \<lparr>BridgeIp = ''Y'', BridgeApiKey = ''Y''\<rparr>)"
  by code_simp

text \<open>
  C2, at an input where the code departs from it. The caller gives the address
  \<open>192.168.1.50\<close>; the cache is off, the environment holds only an API key. The
  two calls of \<open>viper.SetDefault\<close> store the caller's values in the global instance
  of the library, while every lookup goes to the separate instance \<open>cfg\<close>, which
  finds no address. The discovery probe runs once, and the address it finds is the
  one returned; the caller's address sits unused in the global instance.
\<close>

theorem explicit_address_still_discovers:
  "map_option (\<lambda>(r, g, tr). (r, defaults g ''hue_bridge_ip'', count_list tr Discover))
     (GetAuthConfig (example_world [''HUE_BRIDGE_API_KEY'' \<mapsto> ''K''] Absent []) viper_New None
        ''192.168.1.50'' [] False)
   = Some (Inr \<lparr>BridgeIp = ''10.0.0.7'', BridgeApiKey = ''K''\<rparr>, Some ''192.168.1.50'', 1)"
  by code_simp

text \<open>
  C3. When the cache file holds a non-empty address and a non-empty API key, the
  cache is enabled, the caller gives neither value and the environment overrides
  neither, \<open>GetAuthConfig\<close> returns exactly the two cached values, and its run holds
  no discovery probe and no event of the pairing waiter: no authenticator is made, no
  tick is received, no pairing request is sent.
\<close>

theorem cached_credentials_need_no_discovery_or_pairing:
  assumes "UserHomeDir w = Inr h"
    and "files w (filepath_Join h cachePath) = Settings m"
    and "m ''hue_bridge_ip'' = Some a" and "a \<noteq> []"
    and "m ''hue_bridge_api_key'' = Some k" and "k \<noteq> []"
    and "getEnv (environ w) ''HUE_BRIDGE_IP'' = None"
    and "getEnv (environ w) ''HUE_BRIDGE_API_KEY'' = None"
  shows "\<exists>gv' tr. GetAuthConfig w gv c [] [] True
           = Some (Inr \<lparr>BridgeIp = a, BridgeApiKey = k\<rparr>, gv', tr)
         \<and> count_list tr Discover = 0 \<and> count_list tr Authenticate = 0
         \<and> count_list tr TickerTick = 0 \<and> (\<forall>ip. count_list tr (NewAuthenticator ip) = 0)"
proof -
  have ip: "env_then_cache w True h ''hue_bridge_ip'' = a"
    using assms by (simp add: env_then_cache_def ToUpper_ip)
  have key: "env_then_cache w True h ''hue_bridge_api_key'' = k"
    using assms by (simp add: env_then_cache_def ToUpper_key)
  have "GetAuthConfig w gv c [] [] True =
     Some (Inr \<lparr>BridgeIp = a, BridgeApiKey = k\<rparr>, defaults_set [] [] gv,
           cache_note True @ write_events w True h)"
    using GetAuthConfig_known [of w h "[]" True gv c "[]"] assms(1,4,6) ip key by simp
  then show ?thesis
    by (simp add: cache_note_def write_events_def split: option.splits)
qed

theorem cached_credentials_need_no_discovery_or_pairing_witness:
  "\<exists>gv' tr. GetAuthConfig (example_world Map.empty (Settings cache_Z) []) viper_New None [] [] True
           = Some (Inr \<lparr>BridgeIp = ''Z'', BridgeApiKey = ''Z''\<rparr>, gv', tr)
         \<and> count_list tr Discover = 0 \<and> count_list tr Authenticate = 0
         \<and> count_list tr TickerTick = 0 \<and> (\<forall>ip. count_list tr (NewAuthenticator ip) = 0)"
  by (rule cached_credentials_need_no_discovery_or_pairing
        [of "example_world Map.empty (Settings cache_Z) []" "''/home/u''" cache_Z])
     (simp_all add: example_world_def example_path cache_Z_def getEnv_def)

text \<open>
  C7. The outcome of the write of the cache file has no part in what \<open>GetAuthConfig\<close>
  returns: a run in surroundings that differ only in the error of the write returns
  the same credentials or the same error. A run whose write fails, for whatever
  reason, returns credentials and no error, and logs the failure as a warning. With
  the cache disabled no write is attempted.
\<close>

theorem cache_write_failure_not_fatal:
  "map_option fst (GetAuthConfig (w\<lparr>write_error := e'\<rparr>) gv c a k u)
     = map_option fst (GetAuthConfig w gv c a k u)
   \<and> (\<forall>r g tr p e. GetAuthConfig w gv c a k u = Some (r, g, tr) \<longrightarrow>
          SafeWriteConfigAs p (Some e) \<in> set tr \<longrightarrow>
          (\<exists>cfg. r = Inr cfg) \<and> TfLog Warn ''Failed to write cache file: %s'' (Some e) \<in> set tr)
   \<and> (\<forall>r g tr p x. GetAuthConfig w gv c a k False = Some (r, g, tr) \<longrightarrow>
          SafeWriteConfigAs p x \<notin> set tr)"
proof (intro conjI allI impI)
  show "map_option fst (GetAuthConfig (w\<lparr>write_error := e'\<rparr>) gv c a k u)
     = map_option fst (GetAuthConfig w gv c a k u)"
    by (rule GetAuthConfig_write_error)
next
  fix r g tr p e
  assume "GetAuthConfig w gv c a k u = Some (r, g, tr)"
    and "SafeWriteConfigAs p (Some e) \<in> set tr"
  with GetAuthConfig_shape [of w gv c a k u r g tr]
  show "\<exists>cfg. r = Inr cfg" and "TfLog Warn ''Failed to write cache file: %s'' (Some e) \<in> set tr"
    by (auto simp: write_events_def split: if_splits option.splits)
next
  fix r g tr p x
  assume "GetAuthConfig w gv c a k False = Some (r, g, tr)"
  with GetAuthConfig_shape [of w gv c a k False r g tr]
  show "SafeWriteConfigAs p x \<notin> set tr"
    by (auto simp: write_events_def)
qed

text \<open>
  A run with the cache enabled and no cache file yet: the environment gives both
  values. When the write succeeds and when it fails on a directory that cannot be
  written, the same credentials come back; the failed write is in the run together
  with its warning.
\<close>

theorem cache_write_failure_not_fatal_witness:
  "map_option fst (GetAuthConfig (example_world env_Y Absent []) viper_New None [] [] True)
     = Some (Inr \<lparr>BridgeIp = ''Y'', BridgeApiKey = ''Y''\<rparr>)
   \<and> map_option fst (GetAuthConfig
        ((example_world env_Y Absent [])\<lparr>write_error := Some (Err ''permission denied'')\<rparr>)
        viper_New None [] [] True)
     = Some (Inr \<lparr>BridgeIp = ''Y'', BridgeApiKey = ''Y''\<rparr>)
   \<and> (\<exists>g tr. GetAuthConfig
        ((example_world env_Y Absent [])\<lparr>write_error := Some (Err ''permission denied'')\<rparr>)
        viper_New None [] [] True = Some (Inr \<lparr>BridgeIp = ''Y'', BridgeApiKey = ''Y''\<rparr>, g, tr)
      \<and> SafeWriteConfigAs ''/home/u/.openhue-credentials.json'' (Some (Err ''permission denied''))
          \<in> set tr
      \<and> TfLog Warn ''Failed to write cache file: %s'' (Some (Err ''permission denied'')) \<in> set tr)"
proof -
  let ?w = "example_world env_Y Absent []"
  let ?w' = "?w\<lparr>write_error := Some (Err ''permission denied'')\<rparr>"
  let ?r = "Inr \<lparr>BridgeIp = ''Y'', BridgeApiKey = ''Y''\<rparr> :: err + AuthConfig"
  let ?ev = "SafeWriteConfigAs ''/home/u/.openhue-credentials.json''
               (Some (Err ''permission denied''))"
  note claim = cache_write_failure_not_fatal
    [where w = ?w' and e' = "Some (Err ''permission denied'')" and gv = viper_New
       and c = None and a = "[]" and k = "[]" and u = True]
  have same: "map_option fst (GetAuthConfig ?w viper_New None [] [] True) = Some ?r"
    by code_simp
  have "?w'\<lparr>write_error := Some (Err ''permission denied'')\<rparr> = ?w'" by simp
  then have failed: "map_option fst (GetAuthConfig ?w' viper_New None [] [] True) = Some ?r"
    using cache_write_failure_not_fatal
      [where w = ?w and e' = "Some (Err ''permission denied'')" and gv = viper_New
         and c = None and a = "[]" and k = "[]" and u = True] same
    by simp
  then obtain g tr where run: "GetAuthConfig ?w' viper_New None [] [] True = Some (?r, g, tr)"
    by (cases "GetAuthConfig ?w' viper_New None [] [] True") auto
  have "map_option (\<lambda>(r, g, tr). ?ev \<in> set tr) (GetAuthConfig ?w' viper_New None [] [] True)
          = Some True"
    by code_simp
  with run have ev: "?ev \<in> set tr" by simp
  from claim run ev
  have "TfLog Warn ''Failed to write cache file: %s'' (Some (Err ''permission denied'')) \<in> set tr"
    by blast
  with same failed run ev show ?thesis by blast
qed

section \<open>Claims about the pairing waiter\<close>

text \<open>
  C4. When the bridge answers three pairing requests with "not yet authorized, please
  retry" and the fourth with an API key, and the deadline lies beyond the four ticks
  and the time the three retries take, the waiter stays in its loop through the three
  retries without an error and returns the key of the fourth answer. Its run is the
  construction of the authenticator and four passes through the tick case, so four
  ticks are received and four requests sent.
\<close>

theorem three_retries_then_key:
  assumes "newAuthenticator w ip = Inr ((l1, r1) # (l2, r2) # (l3, r3) # (l4, (k, b, None)) # rest)"
    and "is_retry r1" and "is_retry r2" and "is_retry r3" and "k \<noteq> []"
    and "4 * tick_interval + l1 + l2 + l3 < WithTimeout c time_Minute"
  shows "authenticateWithBridgeIp w c ip = Some (Inr k, NewAuthenticator ip # ticks 4)
     \<and> count_list (NewAuthenticator ip # ticks 4) TickerTick = 4
     \<and> count_list (NewAuthenticator ip # ticks 4) Authenticate = 4"
proof -
  let ?pre = "[(l1, r1), (l2, r2), (l3, r3)]"
  have "pollLoop (select_pick w) (WithTimeout c time_Minute) 0 0 tick_interval
          (?pre @ (l4, (k, b, None)) # rest) = Some (Inr k, ticks (Suc (length ?pre)))"
    using assms(2-6) by (intro pollLoop_reaches pollLoop_key) (simp_all add: tick_interval_def)
  then show ?thesis
    using assms(1) by (simp add: authenticateWithBridgeIp_def Let_def numeral_eq_Suc)
qed

theorem three_retries_then_key_witness:
  "authenticateWithBridgeIp
     (example_world Map.empty Absent
        [(120, not_yet), (80, not_yet), (700, not_yet), (95, (''KEY'', False, None))])
     None ''10.0.0.7''
   = Some (Inr ''KEY'', NewAuthenticator ''10.0.0.7'' # ticks 4)
   \<and> count_list (NewAuthenticator ''10.0.0.7'' # ticks 4) TickerTick = 4
   \<and> count_list (NewAuthenticator ''10.0.0.7'' # ticks 4) Authenticate = 4"
  by (rule three_retries_then_key
        [of _ _ 120 not_yet 80 not_yet 700 not_yet 95 "''KEY''" False "[]" None])
     (simp_all add: example_world_def not_yet_def is_retry_def tick_interval_def
        WithTimeout_def time_Minute_def)

text \<open>
  C5. Let the bridge answer some pairing requests with "not yet authorized" and the
  next one with an error that is not a retry. Whatever the timing, the waiter returns,
  receives as many ticks as it sends requests, and either returns that error after
  exactly one request per answer up to the failing one, or has timed out before
  reaching it: in no run is there a request or a tick after the failing answer. When
  the deadline lies beyond the ticks and the retries before the failing answer, the
  error is the result.
\<close>

theorem fatal_reply_ends_polling:
  assumes "newAuthenticator w ip = Inr (pre @ (lat, (k, False, Some e)) # rest)"
    and "\<forall>x\<in>set pre. is_retry (snd x)"
  shows "\<exists>res tr. authenticateWithBridgeIp w c ip = Some (res, tr)
     \<and> count_list tr TickerTick = count_list tr Authenticate
     \<and> (res = Inl e \<and> count_list tr Authenticate = length pre + 1
        \<or> res = Inl timeout_err \<and> count_list tr Authenticate \<le> length pre)
     \<and> (sum_list (map fst pre) + tick_interval * (length pre + 1) < WithTimeout c time_Minute
          \<longrightarrow> res = Inl e \<and> tr = NewAuthenticator ip # ticks (length pre + 1))"
proof -
  let ?dl = "WithTimeout c time_Minute"
  let ?script = "pre @ (lat, (k, False, Some e)) # rest"
  from pollLoop_failed [OF assms(2), of "select_pick w" ?dl 0 0 tick_interval lat k e rest]
  obtain res tr where run:
    "pollLoop (select_pick w) ?dl 0 0 tick_interval ?script = Some (res, tr)"
    and counts: "count_list tr TickerTick = count_list tr Authenticate"
    "res = Inl e \<and> count_list tr Authenticate = length pre + 1
        \<or> res = Inl timeout_err \<and> count_list tr Authenticate \<le> length pre"
    by auto
  have "res = Inl e \<and> tr = ticks (length pre + 1)"
    if "sum_list (map fst pre) + tick_interval * (length pre + 1) < ?dl"
  proof -
    have "pollLoop (select_pick w) ?dl 0 0 tick_interval ?script
            = Some (Inl e, ticks (Suc (length pre)))"
      using assms(2) that by (intro pollLoop_reaches pollLoop_fatal) simp_all
    with run show ?thesis by simp
  qed
  with run counts show ?thesis
    using assms(1) by (simp add: authenticateWithBridgeIp_def Let_def)
qed

theorem fatal_reply_ends_polling_witness:
  "authenticateWithBridgeIp
     (example_world Map.empty Absent
        [(120, not_yet), (80, not_yet), (95, ([], False, Some (Err ''bridge unreachable''))),
         (60, (''KEY'', False, None))])
     None ''10.0.0.7''
   = Some (Inl (Err ''bridge unreachable''), NewAuthenticator ''10.0.0.7'' # ticks 3)"
proof -
  let ?w = "example_world Map.empty Absent
        [(120, not_yet), (80, not_yet), (95, ([], False, Some (Err ''bridge unreachable''))),
         (60, (''KEY'', False, None))]"
  have "newAuthenticator ?w ''10.0.0.7'' =
          Inr ([(120, not_yet), (80, not_yet)] @
               (95, ([], False, Some (Err ''bridge unreachable''))) # [(60, (''KEY'', False, None))])"
    by (simp add: example_world_def)
  from fatal_reply_ends_polling [OF this, of None]
  show ?thesis
    by (auto simp: not_yet_def is_retry_def tick_interval_def WithTimeout_def time_Minute_def
          numeral_3_eq_3)
qed

text \<open>
  C6, as the code has it. The deadline of the waiter is the earlier of one minute
  after entry and the time the caller's context is done; the tick interval is 500
  milliseconds; neither is a parameter. When every pairing request is answered with
  "not yet authorized" within a tick interval, and the script of the bridge covers a
  minute of ticks, the waiter returns the timeout error. It has then received one tick
  per 500 milliseconds up to the deadline, the tick that falls on the deadline itself
  being received or not: with no caller's deadline that is 119 or 120 ticks.
\<close>

theorem waiter_times_out:
  assumes "newAuthenticator w ip = Inr script"
    and "\<forall>x\<in>set script. is_retry (snd x) \<and> fst x < tick_interval"
    and "time_Minute div tick_interval \<le> length script"
  shows "\<exists>tr. authenticateWithBridgeIp w c ip = Some (Inl timeout_err, tr)
     \<and> count_list tr Authenticate = count_list tr TickerTick
     \<and> tick_interval * count_list tr TickerTick \<le> WithTimeout c time_Minute
     \<and> WithTimeout c time_Minute \<le> tick_interval * (count_list tr TickerTick + 1)
     \<and> WithTimeout None time_Minute = 60000 \<and> tick_interval = 500"
proof -
  let ?dl = "WithTimeout c time_Minute"
  have "?dl \<le> time_Minute" by (simp add: WithTimeout_def split: option.splits)
  then have fuel: "?dl < tick_interval + tick_interval * length script"
    using assms(3) by (simp add: time_Minute_def tick_interval_def)
  have "0 < tick_interval" by (simp add: tick_interval_def)
  from pollLoop_timed_out [OF assms(2) dvd_refl this fuel, of "select_pick w" 0]
  obtain tr where tr:
    "pollLoop (select_pick w) ?dl 0 0 tick_interval script = Some (Inl timeout_err, tr)
     \<and> count_list tr Authenticate = count_list tr TickerTick
     \<and> ?dl \<le> tick_interval + tick_interval * count_list tr TickerTick
     \<and> (0 < count_list tr TickerTick \<longrightarrow>
           tick_interval + tick_interval * count_list tr TickerTick \<le> ?dl + tick_interval)" ..
  have "tick_interval * count_list tr TickerTick \<le> ?dl"
    using tr by (cases "count_list tr TickerTick = 0") simp_all
  moreover have "WithTimeout None time_Minute = 60000" "tick_interval = 500"
    by (simp_all add: WithTimeout_def time_Minute_def tick_interval_def)
  ultimately show ?thesis
    using assms(1) tr by (simp add: authenticateWithBridgeIp_def Let_def)
qed

theorem waiter_times_out_witness:
  "\<exists>tr. authenticateWithBridgeIp (example_world Map.empty Absent (replicate 120 (100, not_yet)))
           None ''10.0.0.7'' = Some (Inl timeout_err, tr)
     \<and> 119 \<le> count_list tr TickerTick \<and> count_list tr TickerTick \<le> 120"
proof -
  let ?w = "example_world Map.empty Absent (replicate 120 (100, not_yet))"
  have a: "newAuthenticator ?w ''10.0.0.7'' = Inr (replicate 120 (100, not_yet))"
    by (simp add: example_world_def)
  have b: "\<forall>x\<in>set (replicate 120 (100, not_yet)). is_retry (snd x) \<and> fst x < tick_interval"
    by (simp add: not_yet_def is_retry_def tick_interval_def)
  have c: "time_Minute div tick_interval \<le> length (replicate 120 (100 :: nat, not_yet))"
    by (simp add: time_Minute_def tick_interval_def)
  from waiter_times_out [OF a b c, of None]
  obtain tr where tr:
    "authenticateWithBridgeIp ?w None ''10.0.0.7'' = Some (Inl timeout_err, tr)"
    "tick_interval * count_list tr TickerTick \<le> WithTimeout None time_Minute"
    "WithTimeout None time_Minute \<le> tick_interval * (count_list tr TickerTick + 1)"
    by (elim exE conjE)
  then have le: "500 * count_list tr TickerTick \<le> 60000"
    and ge: "60000 \<le> 500 * (count_list tr TickerTick + 1)"
    by (simp_all add: WithTimeout_def time_Minute_def tick_interval_def)
  from le have "count_list tr TickerTick \<le> 120" by simp
  moreover from ge have "119 \<le> count_list tr TickerTick" by simp
  ultimately show ?thesis using tr(1) by (intro exI [of _ tr]) simp
qed

text \<open>
  Without the bound on the time of an answer the timeout is not certain. The loop looks
  at the deadline only in its \<open>select\<close>, not while a request is under way, and a
  tick that fell due during the request makes both cases of the \<open>select\<close> ready, so
  that the runtime may take either. Here every answer takes 600 milliseconds and the
  runtime takes the tick each time: 130 requests are answered with "not yet
  authorized", the last of them 78 seconds after entry, and the waiter, instead of
  timing out, returns the key of the 131st answer.
\<close>

theorem slow_bridge_polls_past_the_deadline:
  "map_option (\<lambda>(res, tr). (res, count_list tr TickerTick, count_list tr Authenticate))
     (authenticateWithBridgeIp
        (example_world Map.empty Absent
           (replicate 130 (600, not_yet) @ [(600, (''KEY'', False, None))]))
        None ''10.0.0.7'')
   = Some (Inr ''KEY'', 131, 131)
   \<and> time_Minute < 130 * 600"
proof -
  have pre: "\<forall>x\<in>set (replicate 130 (600, not_yet)). is_retry (snd x) \<and> tick_interval \<le> fst x"
    by (simp add: not_yet_def is_retry_def tick_interval_def)
  have start: "tick_interval \<le> 0 \<or> tick_interval \<le> WithTimeout None time_Minute"
    by (simp add: tick_interval_def WithTimeout_def time_Minute_def)
  have "pollLoop (\<lambda>n. False) (WithTimeout None time_Minute) 0 0 tick_interval
          (replicate 130 (600, not_yet) @ (600, (''KEY'', False, None)) # [])
        = Some (Inr ''KEY'', ticks (Suc (length (replicate 130 (600 :: nat, not_yet)))))"
    by (rule pollLoop_slow [OF _ pre start]) simp_all
  then show ?thesis
    by (simp add: authenticateWithBridgeIp_def example_world_def Let_def time_Minute_def)
qed

text \<open>
  C9. The waiter never returns an empty API key without an error: in every run of
  \<open>authenticateWithBridgeIp\<close> that returns a key, the key is not the empty string.
\<close>

theorem waiter_never_returns_empty_key:
  "authenticateWithBridgeIp w c ip = Some (Inr k, tr) \<Longrightarrow> k \<noteq> []"
  by (auto simp: authenticateWithBridgeIp_def Let_def split: sum.splits
        dest: pollLoop_key_nonempty)

text \<open>
  A bridge that first answers with an empty key and no error, then with a key: the
  waiter polls on and returns the second answer.
\<close>

theorem waiter_never_returns_empty_key_witness:
  "authenticateWithBridgeIp
     (example_world Map.empty Absent [(120, ([], False, None)), (80, (''KEY'', False, None))])
     None ''10.0.0.7''
   = Some (Inr ''KEY'', NewAuthenticator ''10.0.0.7'' # tick_events @ tick_events)
   \<and> ''KEY'' \<noteq> []"
proof -
  have run: "authenticateWithBridgeIp
     (example_world Map.empty Absent [(120, ([], False, None)), (80, (''KEY'', False, None))])
     None ''10.0.0.7''
   = Some (Inr ''KEY'', NewAuthenticator ''10.0.0.7'' # tick_events @ tick_events)"
    by (simp add: authenticateWithBridgeIp_def example_world_def pollLoop.simps select_done_def
          authenticateWithBridgeIpOnce_def WithTimeout_def time_Minute_def tick_interval_def
          Let_def)
  from waiter_never_returns_empty_key [OF run] run show ?thesis by simp
qed

section \<open>Claims about the provider and the room resource\<close>

text \<open>
  C8. A successful \<open>Configure\<close>, that is one in which \<open>GetAuthConfig\<close> returns
  credentials and the constructor of the client returns no error, leaves the TLS
  configuration of the default transport of the process with certificate verification
  switched off, whatever it was before. The setting is part of the state of the
  process, not of the client. The client is constructed with the server URL
  \<open>https://\<close> followed by the bridge address and with the header
  \<open>hue-application-key\<close> carrying the API key, and is handed over as the data of
  data sources, resources and ephemeral resources.
\<close>

theorem Configure_disables_tls_verification_for_the_process:
  assumes "map_option fst
             (GetAuthConfig w (viper_global pr) c (ValueString (model_BridgeIp (Config_model req)))
                (ValueString (model_BridgeApiKey (Config_model req)))
                (ValueBool (model_Cache (Config_model req)))) = Some (Inr auth)"
    and "cerr = None"
  shows "\<exists>resp' pr' tr'. Configure w cerr pr c req resp = Some (resp', pr', tr')
     \<and> DefaultTransport_TLSClientConfig pr' = Some \<lparr>InsecureSkipVerify = True\<rparr>
     \<and> DataSourceData resp' =
         Some \<lparr>Server = ''https://'' @ BridgeIp auth,
               RequestHeader = (''hue-application-key'', BridgeApiKey auth)\<rparr>
     \<and> ResourceData resp' = DataSourceData resp'
     \<and> EphemeralResourceData resp' = DataSourceData resp'
     \<and> Diagnostics resp' = Diagnostics resp @ Config_diags req"
proof -
  let ?run = "GetAuthConfig w (viper_global pr) c (ValueString (model_BridgeIp (Config_model req)))
                (ValueString (model_BridgeApiKey (Config_model req)))
                (ValueBool (model_Cache (Config_model req)))"
  from assms(1) obtain gv tr where "?run = Some (Inr auth, gv, tr)"
    by (cases ?run) auto
  then show ?thesis
    using assms(2) by (simp add: Configure_def Let_def NewClientWithResponses_def)
qed

theorem Configure_disables_tls_verification_for_the_process_witness:
  "\<exists>resp' pr' tr'.
     Configure (example_world Map.empty (Settings cache_Z) []) None
       \<lparr>viper_global = viper_New,
        DefaultTransport_TLSClientConfig = Some \<lparr>InsecureSkipVerify = False\<rparr>\<rparr> None
       \<lparr>Config_model = \<lparr>model_BridgeIp = StringNull, model_BridgeApiKey = StringNull,
                        model_Cache = BoolValue True\<rparr>, Config_diags = []\<rparr>
       \<lparr>Diagnostics = [], DataSourceData = None, ResourceData = None,
        EphemeralResourceData = None\<rparr> = Some (resp', pr', tr')
     \<and> DefaultTransport_TLSClientConfig pr' = Some \<lparr>InsecureSkipVerify = True\<rparr>
     \<and> DataSourceData resp' =
         Some \<lparr>Server = ''https://Z'', RequestHeader = (''hue-application-key'', ''Z'')\<rparr>"
proof -
  let ?w = "example_world Map.empty (Settings cache_Z) []"
  have "map_option fst (GetAuthConfig ?w viper_New None [] [] True)
          = Some (Inr \<lparr>BridgeIp = ''Z'', BridgeApiKey = ''Z''\<rparr>)"
    by code_simp
  then have "map_option fst
     (GetAuthConfig ?w
        (viper_global \<lparr>viper_global = viper_New,
           DefaultTransport_TLSClientConfig = Some \<lparr>InsecureSkipVerify = False\<rparr>\<rparr>) None
        (ValueString (model_BridgeIp (Config_model
           \<lparr>Config_model = \<lparr>model_BridgeIp = StringNull, model_BridgeApiKey = StringNull,
                        model_Cache = BoolValue True\<rparr>, Config_diags = []\<rparr>)))
        (ValueString (model_BridgeApiKey (Config_model
           \<lparr>Config_model = \<lparr>model_BridgeIp = StringNull, model_BridgeApiKey = StringNull,
                        model_Cache = BoolValue True\<rparr>, Config_diags = []\<rparr>)))
        (ValueBool (model_Cache (Config_model
           \<lparr>Config_model = \<lparr>model_BridgeIp = StringNull, model_BridgeApiKey = StringNull,
                        model_Cache = BoolValue True\<rparr>, Config_diags = []\<rparr>))))
     = Some (Inr \<lparr>BridgeIp = ''Z'', BridgeApiKey = ''Z''\<rparr>)"
    by simp
  from Configure_disables_tls_verification_for_the_process [OF this refl]
  show ?thesis by fastforce
qed

text \<open>
  C10. When the archetype of a room model is none of "bedroom", "bathroom", "kitchen",
  "dining", "office" and "other", \<open>buildRoomPutPayload\<close> returns an error; \<open>Create\<close>,
  called with a client and a plan that decodes without error, reports that error as a
  diagnostic, and in no case sends a REST request. Each of the six words is mapped to
  the archetype constant of its name, which the payload then carries.
\<close>

theorem invalid_archetype_rejected_before_any_request:
  "(ValueString (Archetype model) \<notin>
      {''bedroom'', ''bathroom'', ''kitchen'', ''dining'', ''office'', ''other''} \<longrightarrow>
      buildRoomPutPayload model =
        Inl (ErrTf ''failed to create room: invalid archetype %s'' (Archetype model))
      \<and> (\<forall>r req resp. Plan_model req = model \<longrightarrow>
            \<not> list_ex is_rest_request (snd (Room_Create bridge set_diags r req resp))
            \<and> (client r \<noteq> None \<and> \<not> HasError (Create_Diagnostics resp @ Plan_diags req) \<longrightarrow>
                 fst (Room_Create bridge set_diags r req resp) =
                   Returns (resp\<lparr>Create_Diagnostics :=
                     Create_Diagnostics resp @ Plan_diags req @
                     [Diag SeverityError ''failed to create room'' ''failed to create room: %s''
                        (Some (ErrTf ''failed to create room: invalid archetype %s''
                                 (Archetype model)))]\<rparr>))))
   \<and> stringToRoomArchetype ''bedroom'' = Some RoomArchetypeBedroom
   \<and> stringToRoomArchetype ''bathroom'' = Some RoomArchetypeBathroom
   \<and> stringToRoomArchetype ''kitchen'' = Some RoomArchetypeKitchen
   \<and> stringToRoomArchetype ''dining'' = Some RoomArchetypeDining
   \<and> stringToRoomArchetype ''office'' = Some RoomArchetypeOffice
   \<and> stringToRoomArchetype ''other'' = Some RoomArchetypeOther
   \<and> (\<forall>v. stringToRoomArchetype (ValueString (Archetype model)) = Some v \<longrightarrow>
        (\<exists>p md. buildRoomPutPayload model = Inr p \<and> Metadata p = Some md
           \<and> Metadata_Archetype md = Some v))"
proof -
  have table:
    "stringToRoomArchetype ''bedroom'' = Some RoomArchetypeBedroom"
    "stringToRoomArchetype ''bathroom'' = Some RoomArchetypeBathroom"
    "stringToRoomArchetype ''kitchen'' = Some RoomArchetypeKitchen"
    "stringToRoomArchetype ''dining'' = Some RoomArchetypeDining"
    "stringToRoomArchetype ''office'' = Some RoomArchetypeOffice"
    "stringToRoomArchetype ''other'' = Some RoomArchetypeOther"
    by (simp_all add: stringToRoomArchetype_def)
  have none: "stringToRoomArchetype s = None"
    if "s \<notin> {''bedroom'', ''bathroom'', ''kitchen'', ''dining'', ''office'', ''other''}" for s
    using that by (simp add: stringToRoomArchetype_def)
  have build: "buildRoomPutPayload model =
        Inl (ErrTf ''failed to create room: invalid archetype %s'' (Archetype model))"
    if "ValueString (Archetype model) \<notin>
          {''bedroom'', ''bathroom'', ''kitchen'', ''dining'', ''office'', ''other''}"
    using none [OF that] by (simp add: buildRoomPutPayload_def mapStringToRoomArchetype_def)
  have create: "\<not> list_ex is_rest_request (snd (Room_Create bridge set_diags r req resp))
       \<and> (client r \<noteq> None \<and> \<not> HasError (Create_Diagnostics resp @ Plan_diags req) \<longrightarrow>
            fst (Room_Create bridge set_diags r req resp) =
              Returns (resp\<lparr>Create_Diagnostics :=
                Create_Diagnostics resp @ Plan_diags req @
                [Diag SeverityError ''failed to create room'' ''failed to create room: %s''
                   (Some (ErrTf ''failed to create room: invalid archetype %s''
                            (Archetype model)))]\<rparr>))"
    if "ValueString (Archetype model) \<notin>
          {''bedroom'', ''bathroom'', ''kitchen'', ''dining'', ''office'', ''other''}"
      and "Plan_model req = model" for r req resp
    using build [OF that(1)] that(2) by (simp add: Room_Create_def Let_def AddError_def)
  have good: "\<exists>p md. buildRoomPutPayload model = Inr p \<and> Metadata p = Some md
           \<and> Metadata_Archetype md = Some v"
    if "stringToRoomArchetype (ValueString (Archetype model)) = Some v" for v
    using that by (simp add: buildRoomPutPayload_def mapStringToRoomArchetype_def)
  show ?thesis
    using table build create good by blast
qed

text \<open>
  A room with the archetype "garage": the diagnostic is reported and nothing is sent.
  A room with the archetype "kitchen": the payload carries the kitchen constant.
\<close>

theorem invalid_archetype_rejected_before_any_request_witness:
  "Room_Create (\<lambda>p. Inl (Err ''unreachable'')) [] \<lparr>client = Some example_client\<rparr>
     \<lparr>Plan_model = example_model ''garage'', Plan_diags = []\<rparr>
     \<lparr>Create_Diagnostics = [], State = None\<rparr>
   = (Returns \<lparr>Create_Diagnostics =
        [Diag SeverityError ''failed to create room'' ''failed to create room: %s''
           (Some (ErrTf ''failed to create room: invalid archetype %s'' (StringValue ''garage'')))],
        State = None\<rparr>,
      [RoomLog ''Creating room %s'' (StringValue ''Den'')])
   \<and> (\<exists>p md. buildRoomPutPayload (example_model ''kitchen'') = Inr p \<and> Metadata p = Some md
         \<and> Metadata_Archetype md = Some RoomArchetypeKitchen)"
proof -
  note claim = invalid_archetype_rejected_before_any_request
  have bad: "ValueString (Archetype (example_model ''garage'')) \<notin>
      {''bedroom'', ''bathroom'', ''kitchen'', ''dining'', ''office'', ''other''}"
    by (simp add: example_model_def)
  have run: "buildRoomPutPayload (example_model ''garage'') =
        Inl (ErrTf ''failed to create room: invalid archetype %s''
               (Archetype (example_model ''garage'')))"
    using claim [of "example_model ''garage''"] bad by blast
  have a: "Room_Create (\<lambda>p. Inl (Err ''unreachable'')) [] \<lparr>client = Some example_client\<rparr>
     \<lparr>Plan_model = example_model ''garage'', Plan_diags = []\<rparr>
     \<lparr>Create_Diagnostics = [], State = None\<rparr>
   = (Returns \<lparr>Create_Diagnostics =
        [Diag SeverityError ''failed to create room'' ''failed to create room: %s''
           (Some (ErrTf ''failed to create room: invalid archetype %s'' (StringValue ''garage'')))],
        State = None\<rparr>,
      [RoomLog ''Creating room %s'' (StringValue ''Den'')])"
    using run by (simp add: Room_Create_def Let_def AddError_def HasError_def example_model_def)
  have "stringToRoomArchetype (ValueString (Archetype (example_model ''kitchen'')))
          = Some RoomArchetypeKitchen"
    using claim [of "example_model ''kitchen''"] by (simp add: example_model_def)
  then have b: "\<exists>p md. buildRoomPutPayload (example_model ''kitchen'') = Inr p
         \<and> Metadata p = Some md \<and> Metadata_Archetype md = Some RoomArchetypeKitchen"
    using claim [of "example_model ''kitchen''"] by blast
  from a b show ?thesis by blast
qed

end
